theory Spec2Isabelle
  imports Main "HOL-Library.AList" "HOL-Library.Log_Nat"
begin

section \<open>Python values used by the Civitas core\<close>

type_synonym ident = string

text \<open>
  A \<^verbatim>\<open>datetime\<close> is determined by its proleptic Gregorian day number
  (\<^verbatim>\<open>toordinal()\<close>, 1 is 0001-01-01) and the time of day in microseconds.
  Comparison is lexicographic on the two.
\<close>

record datetime =
  ordinal :: int
  tod :: nat

definition MINORDINAL :: int where
  "MINORDINAL = 1"

definition MAXORDINAL :: int where
  \<comment> \<open>\<^verbatim>\<open>date(9999, 12, 31).toordinal()\<close>\<close>
  "MAXORDINAL = 3652059"

definition datetime_le :: "datetime \<Rightarrow> datetime \<Rightarrow> bool" where
  "datetime_le a b = (ordinal a < ordinal b \<or> (ordinal a = ordinal b \<and> tod a \<le> tod b))"

datatype py_error = OverflowError

definition add_days :: "datetime \<Rightarrow> int \<Rightarrow> py_error + datetime" where
  \<comment> \<open>\<^verbatim>\<open>d + timedelta(days=n)\<close>: the library raises OverflowError when \<^verbatim>\<open>n\<close> is not a
      legal \<^verbatim>\<open>timedelta\<close> or the resulting day is outside 0001-01-01 .. 9999-12-31.\<close>
  "add_days d n =
     (if \<bar>n\<bar> > 999999999 then Inl OverflowError
      else if MINORDINAL \<le> ordinal d + n \<and> ordinal d + n \<le> MAXORDINAL
      then Inr (d\<lparr>ordinal := ordinal d + n\<rparr>)
      else Inl OverflowError)"

subsection \<open>Calendar dates of day numbers\<close>

text \<open>
  The conversion between a day number and (year, month, day) of the standard library
  (\<^verbatim>\<open>_ymd2ord\<close>, \<^verbatim>\<open>_ord2ymd\<close>); it is only used to write dates as the specification
  does.
\<close>

definition is_leap :: "int \<Rightarrow> bool" where
  "is_leap y = (y mod 4 = 0 \<and> (y mod 100 \<noteq> 0 \<or> y mod 400 = 0))"

definition days_before_year :: "int \<Rightarrow> int" where
  "days_before_year year = (let y = year - 1 in y * 365 + y div 4 - y div 100 + y div 400)"

definition DAYS_IN_MONTH :: "int list" where
  "DAYS_IN_MONTH = [0, 31, 28, 31, 30, 31, 30, 31, 31, 30, 31, 30, 31]"

definition DAYS_BEFORE_MONTH :: "int list" where
  "DAYS_BEFORE_MONTH = [0, 0, 31, 59, 90, 120, 151, 181, 212, 243, 273, 304, 334]"

definition days_before_month :: "int \<Rightarrow> nat \<Rightarrow> int" where
  "days_before_month year month =
     DAYS_BEFORE_MONTH ! month + (if month > 2 \<and> is_leap year then 1 else 0)"

definition ymd2ord :: "int \<Rightarrow> nat \<Rightarrow> int \<Rightarrow> int" where
  "ymd2ord year month day = days_before_year year + days_before_month year month + day"

definition ord2ymd :: "int \<Rightarrow> int \<times> nat \<times> int" where
  "ord2ymd n0 =
     (let n = n0 - 1;
          n400 = n div 146097; n = n mod 146097;
          year = n400 * 400 + 1;
          n100 = n div 36524; n = n mod 36524;
          n4 = n div 1461; n = n mod 1461;
          n1 = n div 365; n = n mod 365;
          year = year + n100 * 100 + n4 * 4 + n1
      in if n1 = 4 \<or> n100 = 4 then (year - 1, 12, 31)
         else
           let leapyear = (n1 = 3 \<and> (n4 \<noteq> 24 \<or> n100 = 3));
               month = nat ((n + 50) div 32);
               preceding = DAYS_BEFORE_MONTH ! month + (if month > 2 \<and> leapyear then 1 else 0)
           in if preceding > n
              then let month' = month - 1;
                       preceding' = preceding -
                         (DAYS_IN_MONTH ! month' + (if month' = 2 \<and> leapyear then 1 else 0))
                   in (year, month', n - preceding' + 1)
              else (year, month, n - preceding + 1))"

definition mk_date :: "int \<Rightarrow> nat \<Rightarrow> int \<Rightarrow> datetime" where
  \<comment> \<open>\<^verbatim>\<open>datetime(year, month, day)\<close>, midnight\<close>
  "mk_date year month day = \<lparr>ordinal = ymd2ord year month day, tod = 0\<rparr>"

definition ymd :: "datetime \<Rightarrow> int \<times> nat \<times> int" where
  "ymd d = ord2ymd (ordinal d)"

subsection \<open>Double precision arithmetic\<close>

text \<open>
  Python's \<^verbatim>\<open>float\<close> is IEEE 754 binary64. Every operation returns the exact result
  rounded to the nearest number with a 53 bit significand, ties to even. The values of
  this program lie far inside the normal range, so the exponent is left unbounded.
  \<^verbatim>\<open>int / int\<close> is correctly rounded as well.
\<close>

definition pow2 :: "int \<Rightarrow> rat" where
  "pow2 e = (if 0 \<le> e then 2 ^ nat e else 1 / 2 ^ nat (- e))"

definition round_half_even :: "rat \<Rightarrow> int" where
  "round_half_even x =
     (let f = \<lfloor>x\<rfloor>; d = x - of_int f
      in if d < 1 / 2 then f else if 1 / 2 < d then f + 1 else if even f then f else f + 1)"

definition binade :: "rat \<Rightarrow> int" where
  \<comment> \<open>for \<open>x > 0\<close>: the \<open>e\<close> with \<open>2^e \<le> x < 2^(e+1)\<close>\<close>
  "binade x =
     (let (a, b) = quotient_of x;
          k = bitlen a - bitlen b
      in if pow2 k \<le> x then k else k - 1)"

definition fl :: "rat \<Rightarrow> rat" where
  "fl x =
     (if x = 0 then 0
      else let e = binade \<bar>x\<bar> - 52
           in of_int (round_half_even (x / pow2 e)) * pow2 e)"

definition fdiv :: "int \<Rightarrow> int \<Rightarrow> rat" where
  \<comment> \<open>\<^verbatim>\<open>a / b\<close> on ints, \<open>b \<noteq> 0\<close>\<close>
  "fdiv a b = fl (of_int a / of_int b)"

definition fmul :: "rat \<Rightarrow> rat \<Rightarrow> rat" where
  "fmul x y = fl (x * y)"

definition fadd :: "rat \<Rightarrow> rat \<Rightarrow> rat" where
  "fadd x y = fl (x + y)"

definition py_int :: "rat \<Rightarrow> int" where
  \<comment> \<open>\<^verbatim>\<open>int(x)\<close> truncates towards zero\<close>
  "py_int x = (if 0 \<le> x then \<lfloor>x\<rfloor> else \<lceil>x\<rceil>)"


section \<open>Rows and objects of the repository (\<^verbatim>\<open>database/db_manager.py\<close>)\<close>

record User =
  u_id :: ident
  username :: string
  full_name :: string
  email :: string
  phone :: string
  role :: string
  cnic :: "string option"
  trust_score :: int
  u_created_date :: datetime
  password_hash :: string

record Committee =
  c_id :: ident
  title :: string
  description :: "string option"
  monthly_amount :: int
  total_members :: int
  current_members :: int
  duration :: int
  committee_type :: string
  category :: string
  payment_frequency :: string
  status :: string
  admin_id :: ident
  created_date :: datetime

text \<open>A row of \<^verbatim>\<open>committee_members\<close>; the fallback store keeps the same fields in a dict.\<close>

record Member =
  m_id :: ident
  m_committee_id :: ident
  m_user_id :: ident
  position :: int
  joined_date :: datetime

record Payment =
  p_id :: ident
  p_committee_id :: ident
  p_user_id :: ident
  amount :: int
  payment_date :: datetime
  p_status :: string
  transaction_id :: "string option"
  payment_method :: string

record Payout =
  po_id :: ident
  po_committee_id :: ident
  po_user_id :: ident
  po_amount :: int
  payout_date :: datetime
  po_status :: string
  payout_method :: string

record Invitation =
  i_id :: ident
  i_committee_id :: ident
  invited_user_id :: ident
  invited_by_id :: ident
  invitation_date :: datetime
  i_status :: string
  response_date :: "datetime option"
  message :: "string option"

text \<open>The dict returned by \<^verbatim>\<open>get_user_by_id\<close>: eight keys, no \<^verbatim>\<open>created_date\<close>.\<close>

record user_dict =
  d_id :: ident
  d_username :: string
  d_full_name :: string
  d_email :: string
  d_phone :: string
  d_role :: string
  d_trust_score :: int
  d_cnic :: "string option"

subsection \<open>The two stores\<close>

text \<open>
  The in-memory fallback: \<^verbatim>\<open>fallback_data\<close> holds dicts keyed by uuid (insertion ordered,
  modelled as association lists with \<^const>\<open>AList.update\<close> for item assignment);
  \<^verbatim>\<open>fallback_invitations\<close> is an attribute that exists only after the first invitation
  (\<^verbatim>\<open>hasattr\<close>), hence an option. The dicts \<^verbatim>\<open>payments\<close> and \<^verbatim>\<open>payouts\<close> of the
  fallback are never read or written and are left out.
\<close>

record fallback =
  fb_users :: "(ident \<times> User) list"
  fb_committees :: "(ident \<times> Committee) list"
  fb_committee_members :: "(ident \<times> Member) list"
  fallback_invitations :: "(ident \<times> Invitation) list option"

text \<open>
  The PostgreSQL database: one list of rows per table. The constraints of the schema
  created by \<^verbatim>\<open>initialize_database\<close> (PRIMARY KEY, UNIQUE, REFERENCES) are checked by the
  statements below; a violation is the \<^verbatim>\<open>psycopg2.IntegrityError\<close> of the source.
\<close>

record database =
  users :: "User list"
  committees :: "Committee list"
  committee_members :: "Member list"
  payments :: "Payment list"
  payouts :: "Payout list"
  committee_invitations :: "Invitation list"

text \<open>
  \<^verbatim>\<open>get_connection\<close> either yields a connection or \<^verbatim>\<open>None\<close>; a manager whose
  connection fails works on the fallback store, otherwise on the database.
\<close>

datatype manager = Fallback fallback | Postgres database

definition dict_values :: "('k \<times> 'v) list \<Rightarrow> 'v list" where
  "dict_values d = map snd d"

definition dict_keys :: "('k \<times> 'v) list \<Rightarrow> 'k list" where
  "dict_keys d = map fst d"

definition timestamp :: "datetime \<Rightarrow> int" where
  "timestamp d = ordinal d * 86400000000 + int (tod d)"

definition order_by_desc :: "('r \<Rightarrow> datetime) \<Rightarrow> 'r list \<Rightarrow> 'r list" where
  \<comment> \<open>\<^verbatim>\<open>ORDER BY col DESC\<close>; rows with equal keys keep their table order\<close>
  "order_by_desc col rows = sort_key (\<lambda>r. - timestamp (col r)) rows"

definition to_user_dict :: "User \<Rightarrow> user_dict" where
  "to_user_dict user =
     \<lparr>d_id = u_id user, d_username = username user, d_full_name = full_name user,
      d_email = email user, d_phone = phone user, d_role = role user,
      d_trust_score = trust_score user, d_cnic = cnic user\<rparr>"

section \<open>Operations of \<^verbatim>\<open>DatabaseManager\<close>\<close>

text \<open>
  Each operation takes the values the source draws from its environment as arguments:
  the fresh \<^verbatim>\<open>uuid.uuid4()\<close> strings and the clock (\<^verbatim>\<open>datetime.now()\<close>,
  \<^verbatim>\<open>CURRENT_TIMESTAMP\<close>). A password enters as its SHA-256 digest
  (\<^verbatim>\<open>hashlib.sha256(password.encode()).hexdigest()\<close>). An operation that writes returns its
  result together with the manager after the call; \<^verbatim>\<open>conn.rollback()\<close> returns the
  manager as it was. Of the errors of the database, the model has the violations of the
  schema's key constraints; the width of a column and a connection lost in the middle of
  a transaction are outside it.
\<close>

definition init_fallback_storage :: "ident \<Rightarrow> ident \<Rightarrow> string \<Rightarrow> datetime \<Rightarrow> fallback" where
  "init_fallback_storage demo_admin_id demo_member_id pw now =
     \<lparr>fb_users =
        AList.update demo_member_id
          \<lparr>u_id = demo_member_id, username = ''demo_member'', full_name = ''Demo Member'',
           email = ''member@civitas.pk'', phone = ''+92-300-7654321'', role = ''member'',
           cnic = Some ''54321-7654321-5'', trust_score = 88, u_created_date = now,
           password_hash = pw\<rparr>
          (AList.update demo_admin_id
            \<lparr>u_id = demo_admin_id, username = ''demo_admin'', full_name = ''Demo Admin'',
             email = ''admin@civitas.pk'', phone = ''+92-300-1234567'', role = ''admin'',
             cnic = Some ''12345-1234567-1'', trust_score = 95, u_created_date = now,
             password_hash = pw\<rparr> []),
      fb_committees = [], fb_committee_members = [], fallback_invitations = None\<rparr>"

definition empty_database :: database where
  "empty_database =
     \<lparr>users = [], committees = [], committee_members = [], payments = [], payouts = [],
      committee_invitations = []\<rparr>"

definition create_demo_users :: "database \<Rightarrow> ident \<Rightarrow> ident \<Rightarrow> string \<Rightarrow> datetime \<Rightarrow> database" where
  \<comment> \<open>on a database without the demo users; the two uuids differ\<close>
  "create_demo_users db admin_id' member_id pw now =
     db\<lparr>users := users db @
        [\<lparr>u_id = admin_id', username = ''demo_admin'', full_name = ''Demo Admin'',
          email = ''admin@civitas.pk'', phone = ''+92-300-1234567'', role = ''admin'',
          cnic = Some ''12345-1234567-1'', trust_score = 95, u_created_date = now,
          password_hash = pw\<rparr>,
         \<lparr>u_id = member_id, username = ''demo_member'', full_name = ''Demo Member'',
          email = ''member@civitas.pk'', phone = ''+92-300-7654321'', role = ''member'',
          cnic = Some ''54321-7654321-5'', trust_score = 88, u_created_date = now,
          password_hash = pw\<rparr>]\<rparr>"

fun create_user ::
  "manager \<Rightarrow> string \<Rightarrow> string \<Rightarrow> string \<Rightarrow> string \<Rightarrow> string \<Rightarrow> string \<Rightarrow> string option \<Rightarrow>
   ident \<Rightarrow> datetime \<Rightarrow> bool \<times> manager" where
  "create_user (Fallback fb) uname pw_hash fname mail ph rl cn user_id now =
     (if \<exists>user \<in> set (dict_values (fb_users fb)). username user = uname
      then (False, Fallback fb)
      else (True, Fallback (fb\<lparr>fb_users := AList.update user_id
              \<lparr>u_id = user_id, username = uname, full_name = fname, email = mail, phone = ph,
               role = rl, cnic = cn, trust_score = 85, u_created_date = now,
               password_hash = pw_hash\<rparr> (fb_users fb)\<rparr>)))"
| "create_user (Postgres db) uname pw_hash fname mail ph rl cn user_id now =
     (if user_id \<in> set (map u_id (users db)) \<or> uname \<in> set (map username (users db))
      then (False, Postgres db)
      else (True, Postgres (db\<lparr>users := users db @
              [\<lparr>u_id = user_id, username = uname, full_name = fname, email = mail, phone = ph,
                role = rl, cnic = cn, trust_score = 85, u_created_date = now,
                password_hash = pw_hash\<rparr>]\<rparr>)))"

fun get_user_by_id :: "manager \<Rightarrow> ident \<Rightarrow> user_dict option" where
  "get_user_by_id (Fallback fb) user_id = map_option to_user_dict (map_of (fb_users fb) user_id)"
| "get_user_by_id (Postgres db) user_id =
     map_option to_user_dict (find (\<lambda>u. u_id u = user_id) (users db))"

fun create_committee ::
  "manager \<Rightarrow> string \<Rightarrow> string option \<Rightarrow> int \<Rightarrow> int \<Rightarrow> int \<Rightarrow> string \<Rightarrow> string \<Rightarrow> string \<Rightarrow> ident \<Rightarrow>
   ident \<Rightarrow> ident \<Rightarrow> datetime \<Rightarrow> bool \<times> manager" where
  "create_committee (Fallback fb) ttl descr amt tot dur ctype cat freq admin
       committee_id member_id now =
     (True, Fallback (fb
        \<lparr>fb_committees := AList.update committee_id
           \<lparr>c_id = committee_id, title = ttl, description = descr, monthly_amount = amt,
            total_members = tot, current_members = 1, duration = dur, committee_type = ctype,
            category = cat, payment_frequency = freq, status = ''active'', admin_id = admin,
            created_date = now\<rparr> (fb_committees fb),
         fb_committee_members := AList.update member_id
           \<lparr>m_id = member_id, m_committee_id = committee_id, m_user_id = admin, position = 1,
            joined_date = now\<rparr> (fb_committee_members fb)\<rparr>))"
| "create_committee (Postgres db) ttl descr amt tot dur ctype cat freq admin
       committee_id member_id now =
     (if committee_id \<in> set (map c_id (committees db))
         \<or> admin \<notin> set (map u_id (users db))
         \<or> member_id \<in> set (map m_id (committee_members db))
         \<or> (committee_id, admin) \<in>
              set (map (\<lambda>r. (m_committee_id r, m_user_id r)) (committee_members db))
      then (False, Postgres db)
      else (True, Postgres (db
        \<lparr>committees := committees db @
           [\<lparr>c_id = committee_id, title = ttl, description = descr, monthly_amount = amt,
             total_members = tot, current_members = 1, duration = dur, committee_type = ctype,
             category = cat, payment_frequency = freq, status = ''active'', admin_id = admin,
             created_date = now\<rparr>],
         committee_members := committee_members db @
           [\<lparr>m_id = member_id, m_committee_id = committee_id, m_user_id = admin, position = 1,
             joined_date = now\<rparr>]\<rparr>)))"

fun get_user_committees :: "manager \<Rightarrow> ident \<Rightarrow> Committee list" where
  "get_user_committees (Fallback fb) user_id =
     List.map_filter
       (\<lambda>member. if m_user_id member = user_id
                 then map_of (fb_committees fb) (m_committee_id member) else None)
       (dict_values (fb_committee_members fb))"
| "get_user_committees (Postgres db) user_id =
     order_by_desc created_date
       (concat (map (\<lambda>c. map (\<lambda>cm. c)
                       (filter (\<lambda>cm. c_id c = m_committee_id cm \<and> m_user_id cm = user_id)
                          (committee_members db)))
                  (committees db)))"

fun get_public_committees_for_user :: "manager \<Rightarrow> ident \<Rightarrow> Committee list" where
  "get_public_committees_for_user (Fallback fb) user_id =
     (let user_committee_ids =
            set (map m_committee_id
                   (filter (\<lambda>member. m_user_id member = user_id)
                      (dict_values (fb_committee_members fb))))
      in filter (\<lambda>committee. committee_type committee = ''public''
                    \<and> c_id committee \<notin> user_committee_ids
                    \<and> current_members committee < total_members committee)
           (dict_values (fb_committees fb)))"
| "get_public_committees_for_user (Postgres db) user_id =
     order_by_desc created_date
       (filter (\<lambda>c. committee_type c = ''public''
                    \<and> current_members c < total_members c
                    \<and> c_id c \<notin> set (map m_committee_id
                                      (filter (\<lambda>cm. m_user_id cm = user_id)
                                         (committee_members db))))
          (committees db))"

definition join_committee_internal ::
  "database \<Rightarrow> ident \<Rightarrow> ident \<Rightarrow> ident \<Rightarrow> datetime \<Rightarrow> bool \<times> database" where
  \<comment> \<open>\<^verbatim>\<open>_join_committee_internal\<close>: runs on the cursor of the caller's transaction\<close>
  "join_committee_internal db committee_id user_id member_id now =
     (case find (\<lambda>c. c_id c = committee_id) (committees db) of
        None \<Rightarrow> (False, db)
      | Some result \<Rightarrow>
          if current_members result \<ge> total_members result then (False, db)
          else if member_id \<in> set (map m_id (committee_members db))
                  \<or> (committee_id, user_id) \<in>
                       set (map (\<lambda>r. (m_committee_id r, m_user_id r)) (committee_members db))
                  \<or> user_id \<notin> set (map u_id (users db))
          then (False, db)
          else (True, db
            \<lparr>committee_members := committee_members db @
               [\<lparr>m_id = member_id, m_committee_id = committee_id, m_user_id = user_id,
                 position = current_members result + 1, joined_date = now\<rparr>],
             committees := map (\<lambda>c. if c_id c = committee_id
                                     then c\<lparr>current_members := current_members c + 1\<rparr> else c)
                             (committees db)\<rparr>))"

fun join_committee :: "manager \<Rightarrow> ident \<Rightarrow> ident \<Rightarrow> ident \<Rightarrow> datetime \<Rightarrow> bool \<times> manager" where
  "join_committee (Fallback fb) committee_id user_id member_id now =
     (case map_of (fb_committees fb) committee_id of
        None \<Rightarrow> (False, Fallback fb)
      | Some committee \<Rightarrow>
          if current_members committee < total_members committee
          then if \<exists>member \<in> set (dict_values (fb_committee_members fb)).
                     m_committee_id member = committee_id \<and> m_user_id member = user_id
               then (False, Fallback fb)
               else (True, Fallback (fb
                 \<lparr>fb_committee_members := AList.update member_id
                    \<lparr>m_id = member_id, m_committee_id = committee_id, m_user_id = user_id,
                     position = current_members committee + 1, joined_date = now\<rparr>
                    (fb_committee_members fb),
                  fb_committees := AList.update committee_id
                    (committee\<lparr>current_members := current_members committee + 1\<rparr>)
                    (fb_committees fb)\<rparr>))
          else (False, Fallback fb))"
| "join_committee (Postgres db) committee_id user_id member_id now =
     (case find (\<lambda>c. c_id c = committee_id) (committees db) of
        None \<Rightarrow> (False, Postgres db)
      | Some result \<Rightarrow>
          if current_members result \<ge> total_members result then (False, Postgres db)
          else if member_id \<in> set (map m_id (committee_members db))
                  \<or> (committee_id, user_id) \<in>
                       set (map (\<lambda>r. (m_committee_id r, m_user_id r)) (committee_members db))
                  \<or> user_id \<notin> set (map u_id (users db))
          then (False, Postgres db)
          else (True, Postgres (db
            \<lparr>committee_members := committee_members db @
               [\<lparr>m_id = member_id, m_committee_id = committee_id, m_user_id = user_id,
                 position = current_members result + 1, joined_date = now\<rparr>],
             committees := map (\<lambda>c. if c_id c = committee_id
                                     then c\<lparr>current_members := current_members c + 1\<rparr> else c)
                             (committees db)\<rparr>)))"

fun get_member_position_in_committee :: "manager \<Rightarrow> ident \<Rightarrow> ident \<Rightarrow> int" where
  "get_member_position_in_committee (Fallback fb) committee_id user_id =
     (case find (\<lambda>member. m_committee_id member = committee_id \<and> m_user_id member = user_id)
             (dict_values (fb_committee_members fb)) of
        Some member \<Rightarrow> position member
      | None \<Rightarrow> 0)"
| "get_member_position_in_committee (Postgres db) committee_id user_id =
     (case find (\<lambda>cm. m_committee_id cm = committee_id \<and> m_user_id cm = user_id)
             (committee_members db) of
        Some result \<Rightarrow> position result
      | None \<Rightarrow> 0)"

fun get_user_payment_history :: "manager \<Rightarrow> ident \<Rightarrow> Payment list" where
  "get_user_payment_history (Fallback fb) user_id = []"
| "get_user_payment_history (Postgres db) user_id =
     order_by_desc payment_date (filter (\<lambda>p. p_user_id p = user_id) (payments db))"

fun update_user_profile ::
  "manager \<Rightarrow> ident \<Rightarrow> string \<Rightarrow> string \<Rightarrow> string \<Rightarrow> string option \<Rightarrow> bool \<times> manager" where
  "update_user_profile (Fallback fb) user_id fname mail ph cn =
     (case map_of (fb_users fb) user_id of
        Some user \<Rightarrow>
          (True, Fallback (fb\<lparr>fb_users := AList.update user_id
             (user\<lparr>full_name := fname, email := mail, phone := ph, cnic := cn\<rparr>) (fb_users fb)\<rparr>))
      | None \<Rightarrow> (False, Fallback fb))"
| "update_user_profile (Postgres db) user_id fname mail ph cn =
     (filter (\<lambda>u. u_id u = user_id) (users db) \<noteq> [],
      Postgres (db\<lparr>users := map (\<lambda>u. if u_id u = user_id
                                     then u\<lparr>full_name := fname, email := mail, phone := ph, cnic := cn\<rparr>
                                     else u) (users db)\<rparr>))"

fun update_committee_settings ::
  "manager \<Rightarrow> ident \<Rightarrow> string \<Rightarrow> string option \<Rightarrow> string \<Rightarrow> string \<Rightarrow> string \<Rightarrow> string \<Rightarrow>
   bool \<times> manager" where
  "update_committee_settings (Fallback fb) committee_id ttl descr st freq cat ctype =
     (case map_of (fb_committees fb) committee_id of
        Some committee \<Rightarrow>
          (True, Fallback (fb\<lparr>fb_committees := AList.update committee_id
             (committee\<lparr>title := ttl, description := descr, status := st,
                payment_frequency := freq, category := cat, committee_type := ctype\<rparr>)
             (fb_committees fb)\<rparr>))
      | None \<Rightarrow> (False, Fallback fb))"
| "update_committee_settings (Postgres db) committee_id ttl descr st freq cat ctype =
     (filter (\<lambda>c. c_id c = committee_id) (committees db) \<noteq> [],
      Postgres (db\<lparr>committees := map (\<lambda>c. if c_id c = committee_id
             then c\<lparr>title := ttl, description := descr, status := st,
                    payment_frequency := freq, category := cat, committee_type := ctype\<rparr>
             else c) (committees db)\<rparr>))"

fun delete_committee :: "manager \<Rightarrow> ident \<Rightarrow> bool \<times> manager" where
  "delete_committee (Fallback fb) committee_id =
     (if committee_id \<in> set (dict_keys (fb_committees fb))
      then (True, Fallback (fb
        \<lparr>fb_committees := AList.delete committee_id (fb_committees fb),
         fb_committee_members :=
           filter (\<lambda>(mid, member). m_committee_id member \<noteq> committee_id)
             (fb_committee_members fb)\<rparr>))
      else (False, Fallback fb))"
| "delete_committee (Postgres db) committee_id =
     (if committee_id \<in> set (map c_id (committees db))
         \<and> committee_id \<in> set (map i_committee_id (committee_invitations db))
      then (False, Postgres db)
      else (committee_id \<in> set (map c_id (committees db)),
            Postgres (db
              \<lparr>payments := filter (\<lambda>p. p_committee_id p \<noteq> committee_id) (payments db),
               payouts := filter (\<lambda>p. po_committee_id p \<noteq> committee_id) (payouts db),
               committee_members :=
                 filter (\<lambda>cm. m_committee_id cm \<noteq> committee_id) (committee_members db),
               committees := filter (\<lambda>c. c_id c \<noteq> committee_id) (committees db)\<rparr>)))"

fun send_committee_invitation ::
  "manager \<Rightarrow> ident \<Rightarrow> ident \<Rightarrow> ident \<Rightarrow> string option \<Rightarrow> ident \<Rightarrow> datetime \<Rightarrow> bool \<times> manager" where
  "send_committee_invitation (Fallback fb) committee_id invited_user invited_by msg
       invitation_id now =
     (True, Fallback (fb\<lparr>fallback_invitations := Some (AList.update invitation_id
        \<lparr>i_id = invitation_id, i_committee_id = committee_id, invited_user_id = invited_user,
         invited_by_id = invited_by, invitation_date = now, i_status = ''pending'',
         response_date = None, message = msg\<rparr>
        (case fallback_invitations fb of None \<Rightarrow> [] | Some invs \<Rightarrow> invs))\<rparr>))"
| "send_committee_invitation (Postgres db) committee_id invited_user invited_by msg
       invitation_id now =
     (if invitation_id \<in> set (map i_id (committee_invitations db))
         \<or> committee_id \<notin> set (map c_id (committees db))
         \<or> invited_user \<notin> set (map u_id (users db))
         \<or> invited_by \<notin> set (map u_id (users db))
      then (False, Postgres db)
      else (True, Postgres (db\<lparr>committee_invitations := committee_invitations db @
        [\<lparr>i_id = invitation_id, i_committee_id = committee_id, invited_user_id = invited_user,
          invited_by_id = invited_by, invitation_date = now, i_status = ''pending'',
          response_date = None, message = msg\<rparr>]\<rparr>)))"

fun respond_to_invitation ::
  "manager \<Rightarrow> ident \<Rightarrow> string \<Rightarrow> ident \<Rightarrow> datetime \<Rightarrow> bool \<times> manager" where
  "respond_to_invitation (Fallback fb) invitation_id response member_id now =
     (case fallback_invitations fb of
        None \<Rightarrow> (False, Fallback fb)
      | Some invs \<Rightarrow>
          (case map_of invs invitation_id of
             None \<Rightarrow> (False, Fallback fb)
           | Some invitation \<Rightarrow>
               let fb' = fb\<lparr>fallback_invitations := Some (AList.update invitation_id
                           (invitation\<lparr>i_status := response, response_date := Some now\<rparr>) invs)\<rparr>
               in if response = ''accepted''
                  then join_committee (Fallback fb') (i_committee_id invitation)
                         (invited_user_id invitation) member_id now
                  else (True, Fallback fb')))"
| "respond_to_invitation (Postgres db) invitation_id response member_id now =
     (if filter (\<lambda>i. i_id i = invitation_id \<and> i_status i = ''pending'')
           (committee_invitations db) = []
      then (False, Postgres db)
      else
        let db1 = db\<lparr>committee_invitations :=
                    map (\<lambda>i. if i_id i = invitation_id \<and> i_status i = ''pending''
                              then i\<lparr>i_status := response, response_date := Some now\<rparr> else i)
                      (committee_invitations db)\<rparr>
        in if response = ''accepted''
           then (case find (\<lambda>i. i_id i = invitation_id) (committee_invitations db1) of
                   None \<Rightarrow> (True, Postgres db1)
                 | Some result \<Rightarrow>
                     (case join_committee_internal db1 (i_committee_id result)
                             (invited_user_id result) member_id now of
                        (True, db2) \<Rightarrow> (True, Postgres db2)
                      | (False, db2) \<Rightarrow> (False, Postgres db)))
           else (True, Postgres db1))"

definition approve_join_request :: "manager \<Rightarrow> ident \<Rightarrow> ident \<Rightarrow> ident \<Rightarrow> datetime \<Rightarrow> bool \<times> manager" where
  "approve_join_request m request_id committee_id member_id now =
     respond_to_invitation m request_id ''accepted'' member_id now"

definition reject_join_request :: "manager \<Rightarrow> ident \<Rightarrow> ident \<Rightarrow> datetime \<Rightarrow> bool \<times> manager" where
  "reject_join_request m request_id member_id now =
     respond_to_invitation m request_id ''rejected'' member_id now"

subsection \<open>Views of a manager\<close>

fun committee_rows :: "manager \<Rightarrow> Committee list" where
  "committee_rows (Fallback fb) = dict_values (fb_committees fb)"
| "committee_rows (Postgres db) = committees db"

fun member_rows :: "manager \<Rightarrow> Member list" where
  "member_rows (Fallback fb) = dict_values (fb_committee_members fb)"
| "member_rows (Postgres db) = committee_members db"

fun invitation_rows :: "manager \<Rightarrow> Invitation list" where
  "invitation_rows (Fallback fb) =
     (case fallback_invitations fb of None \<Rightarrow> [] | Some invs \<Rightarrow> dict_values invs)"
| "invitation_rows (Postgres db) = committee_invitations db"

definition is_member :: "manager \<Rightarrow> ident \<Rightarrow> ident \<Rightarrow> bool" where
  "is_member m committee_id user_id =
     (\<exists>r \<in> set (member_rows m). m_committee_id r = committee_id \<and> m_user_id r = user_id)"

section \<open>Reachable states\<close>

text \<open>
  The calls that write to the store. \<^verbatim>\<open>uuid.uuid4()\<close> never returns an identifier that is
  already a key of the dict or table it is about to be stored in; \<open>uuid_fresh\<close> says so
  for the identifiers a call draws.
\<close>

datatype call =
    Create_user string string string string string string "string option" ident datetime
  | Create_committee string "string option" int int int string string string ident ident ident
      datetime
  | Join_committee ident ident ident datetime
  | Update_user_profile ident string string string "string option"
  | Update_committee_settings ident string "string option" string string string string
  | Delete_committee ident
  | Send_committee_invitation ident ident ident "string option" ident datetime
  | Respond_to_invitation ident string ident datetime

fun exec :: "manager \<Rightarrow> call \<Rightarrow> bool \<times> manager" where
  "exec m (Create_user un pw fn em ph rl cn uid now) = create_user m un pw fn em ph rl cn uid now"
| "exec m (Create_committee t d a tot dur ct cat fr adm cid mid now) =
     create_committee m t d a tot dur ct cat fr adm cid mid now"
| "exec m (Join_committee cid uid mid now) = join_committee m cid uid mid now"
| "exec m (Update_user_profile uid fn em ph cn) = update_user_profile m uid fn em ph cn"
| "exec m (Update_committee_settings cid t d st fr cat ct) =
     update_committee_settings m cid t d st fr cat ct"
| "exec m (Delete_committee cid) = delete_committee m cid"
| "exec m (Send_committee_invitation cid iu ib msg iid now) =
     send_committee_invitation m cid iu ib msg iid now"
| "exec m (Respond_to_invitation iid response mid now) =
     respond_to_invitation m iid response mid now"

fun user_ids :: "manager \<Rightarrow> ident list" where
  "user_ids (Fallback fb) = dict_keys (fb_users fb)"
| "user_ids (Postgres db) = map u_id (users db)"

fun committee_ids :: "manager \<Rightarrow> ident list" where
  "committee_ids (Fallback fb) = dict_keys (fb_committees fb)"
| "committee_ids (Postgres db) = map c_id (committees db)"

fun member_ids :: "manager \<Rightarrow> ident list" where
  "member_ids (Fallback fb) = dict_keys (fb_committee_members fb)"
| "member_ids (Postgres db) = map m_id (committee_members db)"

fun invitation_ids :: "manager \<Rightarrow> ident list" where
  "invitation_ids (Fallback fb) =
     (case fallback_invitations fb of None \<Rightarrow> [] | Some invs \<Rightarrow> dict_keys invs)"
| "invitation_ids (Postgres db) = map i_id (committee_invitations db)"

fun uuid_fresh :: "manager \<Rightarrow> call \<Rightarrow> bool" where
  "uuid_fresh m (Create_user un pw fn em ph rl cn uid now) = (uid \<notin> set (user_ids m))"
| "uuid_fresh m (Create_committee t d a tot dur ct cat fr adm cid mid now) =
     (cid \<notin> set (committee_ids m) \<and> mid \<notin> set (member_ids m))"
| "uuid_fresh m (Join_committee cid uid mid now) = (mid \<notin> set (member_ids m))"
| "uuid_fresh m (Send_committee_invitation cid iu ib msg iid now) =
     (iid \<notin> set (invitation_ids m))"
| "uuid_fresh m (Respond_to_invitation iid response mid now) = (mid \<notin> set (member_ids m))"
| "uuid_fresh m c = True"

text \<open>
  A manager starts from what \<^verbatim>\<open>__init__\<close> leaves: the fallback storage with the two demo
  users, or a database whose tables have just been created and hold the two demo users.
  Every later store is the result of one more writing call.
\<close>

inductive reachable :: "manager \<Rightarrow> bool" where
  start_fallback:
    "demo_admin_id \<noteq> demo_member_id \<Longrightarrow>
     reachable (Fallback (init_fallback_storage demo_admin_id demo_member_id pw now))"
| start_database:
    "demo_admin_id \<noteq> demo_member_id \<Longrightarrow>
     reachable (Postgres (create_demo_users empty_database demo_admin_id demo_member_id pw now))"
| step:
    "reachable m \<Longrightarrow> uuid_fresh m c \<Longrightarrow> reachable (snd (exec m c))"

section \<open>Trust score (\<^verbatim>\<open>utils/trust_score.py\<close>)\<close>

text \<open>
  \<^verbatim>\<open>_calculate_payment_score\<close> takes a list of any objects and asks each one with
  \<^verbatim>\<open>hasattr\<close> for \<^verbatim>\<open>due_date\<close> and \<^verbatim>\<open>payment_date\<close>. An object is modelled by the
  attributes the function reads; \<open>None\<close> is an attribute the object does not have.
\<close>

record payment_like =
  pl_status :: string
  pl_payment_date :: "datetime option"
  pl_due_date :: "datetime option"

definition payment_object :: "Payment \<Rightarrow> payment_like" where
  \<comment> \<open>an instance of the dataclass \<^verbatim>\<open>Payment\<close> of db_manager.py, which has no field
      \<^verbatim>\<open>due_date\<close>\<close>
  "payment_object p =
     \<lparr>pl_status = p_status p, pl_payment_date = Some (payment_date p), pl_due_date = None\<rparr>"

fun on_time_loop :: "payment_like list \<Rightarrow> int \<Rightarrow> int" where
  "on_time_loop [] on_time_payments = on_time_payments"
| "on_time_loop (payment # rest) on_time_payments =
     on_time_loop rest
       (case (pl_due_date payment, pl_payment_date payment) of
          (Some due, Some paid) \<Rightarrow>
            if datetime_le paid due then on_time_payments + 1 else on_time_payments
        | _ \<Rightarrow> on_time_payments)"

definition calculate_payment_score :: "payment_like list \<Rightarrow> int" where
  "calculate_payment_score pays =
     (if pays = [] then 0
      else
        let paid_payments = filter (\<lambda>p. pl_status p = ''paid'') pays;
            total_payments = int (length pays)
        in if total_payments = 0 then 0
           else
             let payment_ratio = fdiv (int (length paid_payments)) total_payments;
                 on_time_payments = on_time_loop paid_payments 0;
                 on_time_ratio = (if paid_payments \<noteq> []
                                  then fdiv on_time_payments (int (length paid_payments)) else 0)
             in py_int (fadd (fmul payment_ratio 25) (fmul on_time_ratio 15)))"

definition calculate_completion_score :: "Committee list \<Rightarrow> int" where
  "calculate_completion_score cs =
     (if cs = [] then 0
      else
        let completed_committees = filter (\<lambda>c. status c = ''completed'') cs;
            total_committees = int (length cs);
            completion_ratio = fdiv (int (length completed_committees)) total_committees;
            active_committees = filter (\<lambda>c. status c = ''active'') cs;
            active_bonus = min 10 (int (length active_committees) * 2)
        in py_int (fadd (fmul completion_ratio 20) (of_int active_bonus)))"

definition attr_created_date :: "user_dict \<Rightarrow> datetime option" where
  \<comment> \<open>\<^verbatim>\<open>user_data.created_date\<close> on the dict of \<^verbatim>\<open>get_user_by_id\<close>: the keys of a dict are
      not attributes, so \<^verbatim>\<open>hasattr(user_data, 'created_date')\<close> is false\<close>
  "attr_created_date user_data = None"

definition calculate_tenure_score :: "manager \<Rightarrow> ident \<Rightarrow> datetime \<Rightarrow> int" where
  "calculate_tenure_score m user_id now =
     (case get_user_by_id m user_id of
        None \<Rightarrow> 0
      | Some user_data \<Rightarrow>
          (case attr_created_date user_data of
             None \<Rightarrow> 0
           | Some created \<Rightarrow>
               let account_age_days = (timestamp now - timestamp created) div 86400000000;
                   months_active = fdiv account_age_days 30
               in min 20 (py_int months_active)))"

definition calculate_trust_score :: "manager \<Rightarrow> ident \<Rightarrow> datetime \<Rightarrow> int" where
  "calculate_trust_score m user_id now =
     (let payments' = get_user_payment_history m user_id;
          cs = get_user_committees m user_id
      in if payments' = [] \<and> cs = [] then 85
         else
           let base_score = 50;
               payment_score = calculate_payment_score (map payment_object payments');
               completion_score = calculate_completion_score cs;
               tenure_score = calculate_tenure_score m user_id now;
               total_score = base_score + payment_score + completion_score + tenure_score
           in min 100 (max 0 total_score))"

text \<open>
  The payment component as the specification words it, over the exact rationals:
  \<open>25 * (paid_count / total_payment_count) + 15 * (on_time_count / paid_count)\<close>, a paid
  payment being on time when its payment date is not after its due date.
\<close>

definition on_time :: "payment_like \<Rightarrow> bool" where
  "on_time p =
     (case (pl_payment_date p, pl_due_date p) of
        (Some paid, Some due) \<Rightarrow> datetime_le paid due
      | _ \<Rightarrow> False)"

definition paid_count :: "payment_like list \<Rightarrow> nat" where
  "paid_count ps = length (filter (\<lambda>p. pl_status p = ''paid'') ps)"

definition on_time_count :: "payment_like list \<Rightarrow> nat" where
  "on_time_count ps = length (filter (\<lambda>p. pl_status p = ''paid'' \<and> on_time p) ps)"

definition payment_component_spec :: "payment_like list \<Rightarrow> rat" where
  "payment_component_spec ps =
     (if ps = [] then 0
      else 25 * (of_nat (paid_count ps) / of_nat (length ps))
           + (if paid_count ps = 0 then 0
              else 15 * (of_nat (on_time_count ps) / of_nat (paid_count ps))))"

section \<open>Payment schedule and payout notifications (\<^verbatim>\<open>utils/payment_manager.py\<close>)\<close>

record schedule_entry =
  cycle :: int
  due_date :: datetime
  amount_per_member :: "int option"

fun schedule_loop ::
  "datetime \<Rightarrow> int \<Rightarrow> int list \<Rightarrow> schedule_entry list \<Rightarrow> py_error + schedule_entry list" where
  "schedule_loop current_date interval_days [] schedule = Inr schedule"
| "schedule_loop current_date interval_days (cy # rest) schedule =
     (case add_days current_date (interval_days * cy) of
        Inl e \<Rightarrow> Inl e
      | Inr due \<Rightarrow>
          schedule_loop current_date interval_days rest
            (schedule @ [\<lparr>cycle = cy + 1, due_date = due, amount_per_member = None\<rparr>]))"

definition py_range :: "int \<Rightarrow> int list" where
  \<comment> \<open>\<^verbatim>\<open>range(n)\<close>\<close>
  "py_range n = [0..n - 1]"

definition calculate_payment_schedule ::
  "ident \<Rightarrow> datetime \<Rightarrow> string \<Rightarrow> int \<Rightarrow> py_error + schedule_entry list" where
  "calculate_payment_schedule committee_id start_date freq dur =
     (let current_date = start_date;
          interval_days = (if freq = ''monthly'' then 30
                           else if freq = ''bi_monthly'' then 60
                           else 30)
      in schedule_loop current_date interval_days (py_range dur) [])"

record notification =
  n_committee_id :: ident
  n_committee_title :: string
  n_amount :: int
  estimated_date :: datetime

fun notification_loop ::
  "manager \<Rightarrow> ident \<Rightarrow> datetime \<Rightarrow> Committee list \<Rightarrow> notification list \<Rightarrow>
   py_error + notification list" where
  "notification_loop m user_id now [] notifications = Inr notifications"
| "notification_loop m user_id now (committee # rest) notifications =
     (let pos = get_member_position_in_committee m (c_id committee) user_id
      in if pos = 1
         then let payout_amount = monthly_amount committee * current_members committee
              in (case add_days now 7 of
                    Inl e \<Rightarrow> Inl e
                  | Inr est \<Rightarrow>
                      notification_loop m user_id now rest
                        (notifications @
                           [\<lparr>n_committee_id = c_id committee, n_committee_title = title committee,
                             n_amount = payout_amount, estimated_date = est\<rparr>]))
         else notification_loop m user_id now rest notifications)"

definition get_payout_notifications ::
  "manager \<Rightarrow> ident \<Rightarrow> datetime \<Rightarrow> py_error + notification list" where
  "get_payout_notifications m user_id now =
     notification_loop m user_id now (get_user_committees m user_id) []"

text \<open>
  The member dashboard (\<^verbatim>\<open>pages/member_dashboard.py\<close>) computes the payout of every
  position: \<^verbatim>\<open>show_member_overview\<close> builds \<^verbatim>\<open>queue_data\<close> with one entry per position
  \<^verbatim>\<open>range(1, committee.current_members + 1)\<close>, and \<^verbatim>\<open>show_payout_schedule\<close> shows
  \<^verbatim>\<open>monthly_pool\<close> as the member's payout amount and as the amount of every row of the
  payout calendar.
\<close>

record queue_entry =
  q_position :: int
  q_amount :: int
  q_type :: string

fun queue_loop :: "Committee \<Rightarrow> int \<Rightarrow> int list \<Rightarrow> queue_entry list \<Rightarrow> queue_entry list" where
  "queue_loop committee member_position [] queue_data = queue_data"
| "queue_loop committee member_position (pos # rest) queue_data =
     (let is_current_user = (pos = member_position)
      in queue_loop committee member_position rest
           (queue_data @
              [\<lparr>q_position = pos,
                q_amount = monthly_amount committee * current_members committee,
                q_type = (if is_current_user then ''You'' else ''Other'')\<rparr>]))"

definition payout_queue :: "manager \<Rightarrow> Committee \<Rightarrow> ident \<Rightarrow> queue_entry list" where
  "payout_queue m committee user_id =
     (let member_position = get_member_position_in_committee m (c_id committee) user_id
      in queue_loop committee member_position [1..current_members committee] [])"

definition monthly_pool :: "Committee \<Rightarrow> int" where
  "monthly_pool committee = monthly_amount committee * current_members committee"

text \<open>The committees for which \<^verbatim>\<open>get_payout_notifications\<close> notifies the user.\<close>

definition first_in_queue :: "manager \<Rightarrow> ident \<Rightarrow> Committee list" where
  "first_in_queue m user_id =
     filter (\<lambda>c. get_member_position_in_committee m (c_id c) user_id = 1)
       (get_user_committees m user_id)"

text \<open>
  \<^verbatim>\<open>show_browse_committees\<close> of \<^verbatim>\<open>pages/committee_management.py\<close> shows to a user who
  may join a committee the pool of the committee once it is full, as its estimated payout.
\<close>

definition estimated_payout :: "Committee \<Rightarrow> int" where
  "estimated_payout committee = monthly_amount committee * total_members committee"

definition interval_of :: "string \<Rightarrow> int" where
  \<comment> \<open>\<^verbatim>\<open>interval_days\<close> for the two frequencies of the data model\<close>
  "interval_of freq = (if freq = ''monthly'' then 30 else 60)"

section \<open>Looking up a committee; example stores\<close>

fun lookup_committee :: "manager \<Rightarrow> ident \<Rightarrow> Committee option" where
  \<comment> \<open>the committee that \<^verbatim>\<open>join_committee\<close> reads:
      \<^verbatim>\<open>fallback_data['committees'].get(committee_id)\<close>, or the row selected by id\<close>
  "lookup_committee (Fallback fb) committee_id = map_of (fb_committees fb) committee_id"
| "lookup_committee (Postgres db) committee_id =
     find (\<lambda>c. c_id c = committee_id) (committees db)"

definition run :: "manager \<Rightarrow> call list \<Rightarrow> manager" where
  "run m cs = foldl (\<lambda>m c. snd (exec m c)) m cs"

fun fresh_run :: "manager \<Rightarrow> call list \<Rightarrow> bool" where
  "fresh_run m [] = True"
| "fresh_run m (c # cs) = (uuid_fresh m c \<and> fresh_run (snd (exec m c)) cs)"

definition t0 :: datetime where
  "t0 = mk_date 2025 1 1"

definition demo_fallback :: manager where
  "demo_fallback = Fallback (init_fallback_storage ''u-admin'' ''u-member'' ''5e88'' t0)"

definition demo_database :: manager where
  "demo_database = Postgres (create_demo_users empty_database ''u-admin'' ''u-member'' ''5e88'' t0)"

text \<open>
  The demo admin creates a private committee for two members and invites the demo member
  and a third user; the demo member accepts, which fills the committee while the third
  user's invitation is still pending.
\<close>

definition filling_calls :: "call list" where
  "filling_calls =
     [Create_user ''carol'' ''5e88'' ''Carol'' ''carol@civitas.pk'' ''+92-300-0000000'' ''member''
        None ''u-carol'' t0,
      Create_committee ''Savers'' None 5000 2 12 ''private'' ''General'' ''monthly'' ''u-admin''
        ''c-1'' ''m-1'' t0,
      Send_committee_invitation ''c-1'' ''u-member'' ''u-admin'' None ''i-1'' t0,
      Send_committee_invitation ''c-1'' ''u-carol'' ''u-admin'' None ''i-2'' t0,
      Respond_to_invitation ''i-1'' ''accepted'' ''m-2'' t0]"

definition full_fallback :: manager where
  "full_fallback = run demo_fallback filling_calls"

definition full_database :: manager where
  "full_database = run demo_database filling_calls"

text \<open>
  Afterwards the admin opens two public committees; the demo member joins the second one,
  which is then full.
\<close>

definition browsing_calls :: "call list" where
  "browsing_calls =
     [Create_committee ''Open circle'' None 3000 2 6 ''public'' ''General'' ''monthly'' ''u-admin''
        ''c-2'' ''m-4'' t0,
      Create_committee ''Full circle'' None 4000 2 6 ''public'' ''General'' ''bi_monthly''
        ''u-admin'' ''c-3'' ''m-5'' t0,
      Join_committee ''c-3'' ''u-member'' ''m-6'' t0]"

definition browse_fallback :: manager where
  "browse_fallback = run full_fallback browsing_calls"

definition browse_database :: manager where
  "browse_database = run full_database browsing_calls"

definition open_circle :: Committee where
  "open_circle =
     \<lparr>c_id = ''c-2'', title = ''Open circle'', description = None, monthly_amount = 3000,
      total_members = 2, current_members = 1, duration = 6, committee_type = ''public'',
      category = ''General'', payment_frequency = ''monthly'', status = ''active'',
      admin_id = ''u-admin'', created_date = t0\<rparr>"

definition full_circle :: Committee where
  "full_circle =
     \<lparr>c_id = ''c-3'', title = ''Full circle'', description = None, monthly_amount = 4000,
      total_members = 2, current_members = 2, duration = 6, committee_type = ''public'',
      category = ''General'', payment_frequency = ''bi_monthly'', status = ''active'',
      admin_id = ''u-admin'', created_date = t0\<rparr>"

text \<open>The committee of the specification's example: six of ten members have joined.\<close>

definition six_of_ten :: Committee where
  "six_of_ten =
     \<lparr>c_id = ''c-9'', title = ''Ten'', description = None, monthly_amount = 5000,
      total_members = 10, current_members = 6, duration = 10, committee_type = ''public'',
      category = ''General'', payment_frequency = ''monthly'', status = ''active'',
      admin_id = ''u-admin'', created_date = t0\<rparr>"

text \<open>Payment objects for the examples of the payment component.\<close>

definition paid_in_time :: payment_like where
  "paid_in_time = \<lparr>pl_status = ''paid'', pl_payment_date = Some t0,
                    pl_due_date = Some (t0\<lparr>ordinal := ordinal t0 + 5\<rparr>)\<rparr>"

definition paid_late :: payment_like where
  "paid_late = \<lparr>pl_status = ''paid'', pl_payment_date = Some (t0\<lparr>ordinal := ordinal t0 + 9\<rparr>),
                 pl_due_date = Some (t0\<lparr>ordinal := ordinal t0 + 5\<rparr>)\<rparr>"

definition still_pending :: payment_like where
  "still_pending = \<lparr>pl_status = ''pending'', pl_payment_date = Some t0,
                     pl_due_date = Some (t0\<lparr>ordinal := ordinal t0 + 5\<rparr>)\<rparr>"

definition one_of_three :: "payment_like list" where
  "one_of_three = [paid_late, still_pending, still_pending]"

definition nine_of_27 :: "payment_like list" where
  "nine_of_27 = paid_in_time # replicate 8 paid_late @ replicate 18 still_pending"

definition stored_payment :: Payment where
  "stored_payment = \<lparr>p_id = ''p-1'', p_committee_id = ''c-1'', p_user_id = ''u-member'',
      amount = 5000, payment_date = t0, p_status = ''paid'', transaction_id = None,
      payment_method = ''bank_transfer''\<rparr>"

section \<open>The store invariant\<close>

text \<open>
  \<open>admin_first cs rs\<close> relates the committees and the memberships of a store: every
  membership belongs to a stored committee and has a position of at least 1; every
  committee has at least one member, its admin is a member, and every membership of the
  admin in it has position 1. In the fallback store every committee is filed under its
  own id (\<open>keyed_dict\<close>). \<open>evolves\<close> describes an update of committees that keeps ids
  and admins and does not lower \<open>current_members\<close>.
\<close>

definition admin_first :: "Committee list \<Rightarrow> Member list \<Rightarrow> bool" where
  "admin_first cs rs \<longleftrightarrow>
     (\<forall>r \<in> set rs. (\<exists>c \<in> set cs. c_id c = m_committee_id r) \<and> 1 \<le> position r)
   \<and> (\<forall>c \<in> set cs. 1 \<le> current_members c
        \<and> (\<exists>r \<in> set rs. m_committee_id r = c_id c \<and> m_user_id r = admin_id c)
        \<and> (\<forall>r \<in> set rs. m_committee_id r = c_id c \<and> m_user_id r = admin_id c
              \<longrightarrow> position r = 1))"

definition evolves :: "Committee list \<Rightarrow> Committee list \<Rightarrow> bool" where
  "evolves cs cs' \<longleftrightarrow>
     (\<forall>c' \<in> set cs'. \<exists>c \<in> set cs. c_id c' = c_id c \<and> admin_id c' = admin_id c
        \<and> current_members c \<le> current_members c')
   \<and> c_id ` set cs \<subseteq> c_id ` set cs'"

definition keyed_dict :: "(ident \<times> Committee) list \<Rightarrow> bool" where
  "keyed_dict d \<longleftrightarrow> (\<forall>p \<in> set d. c_id (snd p) = fst p)"

fun keyed :: "manager \<Rightarrow> bool" where
  "keyed (Fallback fb) = keyed_dict (fb_committees fb)"
| "keyed (Postgres db) = True"

definition store_inv :: "manager \<Rightarrow> bool" where
  "store_inv m \<longleftrightarrow> admin_first (committee_rows m) (member_rows m) \<and> keyed m"

definition full_circle_admin :: Member where
  "full_circle_admin =
     \<lparr>m_id = ''m-5'', m_committee_id = ''c-3'', m_user_id = ''u-admin'', position = 1,
      joined_date = t0\<rparr>"

section \<open>Auxiliary facts\<close>

lemma find_SomeD: "find P xs = Some x \<Longrightarrow> P x \<and> x \<in> set xs"
  by (induction xs) (auto split: if_splits)

lemma set_order_by_desc [simp]: "set (order_by_desc col rows) = set rows"
  by (simp add: order_by_desc_def)

lemma order_by_desc_Nil_iff [simp]: "order_by_desc col rows = [] \<longleftrightarrow> rows = []"
  by (metis set_order_by_desc set_empty)

lemma map_filter_subset: "set (List.map_filter f xs) \<subseteq> {y. \<exists>x \<in> set xs. f x = Some y}"
  by (auto simp: List.map_filter_def)

lemma map_of_dict_values: "map_of d k = Some v \<Longrightarrow> v \<in> set (dict_values d)"
  by (auto simp: dict_values_def dest: map_of_SomeD intro: rev_image_eqI)

lemma joined_ids_iff:
  "cid \<in> set (map m_committee_id (filter (\<lambda>r. m_user_id r = uid) rs)) \<longleftrightarrow>
     (\<exists>r \<in> set rs. m_committee_id r = cid \<and> m_user_id r = uid)"
  by (induction rs) auto

lemma user_committees_stored: "set (get_user_committees m user_id) \<subseteq> set (committee_rows m)"
proof (cases m)
  case (Fallback fb)
  then show ?thesis
    using map_filter_subset by (fastforce split: if_splits dest: map_of_dict_values)
next
  case (Postgres db)
  then show ?thesis by auto
qed

lemma reachable_run: "reachable m \<Longrightarrow> fresh_run m cs \<Longrightarrow> reachable (run m cs)"
proof (induction cs arbitrary: m)
  case Nil
  then show ?case by (simp add: run_def)
next
  case (Cons c cs)
  from Cons.prems have "reachable (snd (exec m c))" by (simp add: step)
  moreover from Cons.prems have "fresh_run (snd (exec m c)) cs" by simp
  ultimately have "reachable (run (snd (exec m c)) cs)" by (rule Cons.IH)
  then show ?case by (simp add: run_def)
qed

lemma reachable_demo_fallback: "reachable demo_fallback"
  unfolding demo_fallback_def by (rule start_fallback) simp

lemma reachable_demo_database: "reachable demo_database"
  unfolding demo_database_def by (rule start_database) simp

lemma fresh_filling_fallback: "fresh_run demo_fallback filling_calls"
  by code_simp

lemma fresh_filling_database: "fresh_run demo_database filling_calls"
  by code_simp

lemma reachable_full_fallback: "reachable full_fallback"
  unfolding full_fallback_def
  by (rule reachable_run[OF reachable_demo_fallback fresh_filling_fallback])

lemma reachable_full_database: "reachable full_database"
  unfolding full_database_def
  by (rule reachable_run[OF reachable_demo_database fresh_filling_database])

section \<open>Every reachable store satisfies the invariant\<close>

lemma admin_firstD:
  assumes "admin_first cs rs"
  shows "r \<in> set rs \<Longrightarrow> \<exists>c \<in> set cs. c_id c = m_committee_id r"
    and "r \<in> set rs \<Longrightarrow> 1 \<le> position r"
    and "c \<in> set cs \<Longrightarrow> 1 \<le> current_members c"
    and "c \<in> set cs \<Longrightarrow> \<exists>r \<in> set rs. m_committee_id r = c_id c \<and> m_user_id r = admin_id c"
    and "c \<in> set cs \<Longrightarrow> r \<in> set rs \<Longrightarrow> m_committee_id r = c_id c \<Longrightarrow>
         m_user_id r = admin_id c \<Longrightarrow> position r = 1"
  using assms unfolding admin_first_def by simp_all

lemma admin_firstI:
  assumes "\<And>r. r \<in> set rs \<Longrightarrow> \<exists>c \<in> set cs. c_id c = m_committee_id r"
    and "\<And>r. r \<in> set rs \<Longrightarrow> 1 \<le> position r"
    and "\<And>c. c \<in> set cs \<Longrightarrow> 1 \<le> current_members c"
    and "\<And>c. c \<in> set cs \<Longrightarrow> \<exists>r \<in> set rs. m_committee_id r = c_id c \<and> m_user_id r = admin_id c"
    and "\<And>c r. c \<in> set cs \<Longrightarrow> r \<in> set rs \<Longrightarrow> m_committee_id r = c_id c \<Longrightarrow>
         m_user_id r = admin_id c \<Longrightarrow> position r = 1"
  shows "admin_first cs rs"
  unfolding admin_first_def using assms by simp

lemma admin_first_create:
  assumes inv: "admin_first cs rs" and cs': "set cs' = insert c (set cs)"
    and rs': "set rs' = insert r (set rs)"
    and fresh: "c_id c \<notin> c_id ` set cs" and cur: "current_members c = 1"
    and r: "m_committee_id r = c_id c" "m_user_id r = admin_id c" "position r = 1"
  shows "admin_first cs' rs'"
proof (rule admin_firstI)
  fix x assume "x \<in> set rs'"
  then consider "x = r" | "x \<in> set rs" using rs' by auto
  then show "\<exists>c \<in> set cs'. c_id c = m_committee_id x"
  proof cases
    case 1 then show ?thesis using r cs' by auto
  next
    case 2 then show ?thesis using admin_firstD(1)[OF inv] cs' by auto
  qed
next
  fix x assume "x \<in> set rs'"
  then consider "x = r" | "x \<in> set rs" using rs' by auto
  then show "1 \<le> position x"
    using r admin_firstD(2)[OF inv] by cases auto
next
  fix y assume "y \<in> set cs'"
  then consider "y = c" | "y \<in> set cs" using cs' by auto
  then show "1 \<le> current_members y"
    using cur admin_firstD(3)[OF inv] by cases auto
next
  fix y assume "y \<in> set cs'"
  then consider "y = c" | "y \<in> set cs" using cs' by auto
  then show "\<exists>r \<in> set rs'. m_committee_id r = c_id y \<and> m_user_id r = admin_id y"
  proof cases
    case 1 then show ?thesis using r rs' by auto
  next
    case 2
    from admin_firstD(4)[OF inv 2] show ?thesis using rs' by auto
  qed
next
  fix y x assume y: "y \<in> set cs'" and x: "x \<in> set rs'"
    and eq: "m_committee_id x = c_id y" "m_user_id x = admin_id y"
  from x consider "x = r" | "x \<in> set rs" using rs' by auto
  then show "position x = 1"
  proof cases
    case 1 then show ?thesis using r by simp
  next
    case 2
    from admin_firstD(1)[OF inv 2] obtain c' where c': "c' \<in> set cs" "c_id c' = m_committee_id x"
      by blast
    with fresh eq have "y \<noteq> c" by (metis image_eqI)
    with y cs' have "y \<in> set cs" by auto
    from admin_firstD(5)[OF inv this 2 eq] show ?thesis .
  qed
qed

lemma admin_first_evolves:
  assumes inv: "admin_first cs rs" and ev: "evolves cs cs'"
  shows "admin_first cs' rs"
proof (rule admin_firstI)
  fix r assume r: "r \<in> set rs"
  from admin_firstD(1)[OF inv r] obtain c where "c \<in> set cs" "c_id c = m_committee_id r"
    by blast
  then have "m_committee_id r \<in> c_id ` set cs" by (metis image_eqI)
  with ev have "m_committee_id r \<in> c_id ` set cs'" unfolding evolves_def by blast
  then show "\<exists>c \<in> set cs'. c_id c = m_committee_id r" by auto
  from admin_firstD(2)[OF inv r] show "1 \<le> position r" .
next
  fix c' assume "c' \<in> set cs'"
  with ev obtain c where c: "c \<in> set cs" "c_id c' = c_id c" "admin_id c' = admin_id c"
    "current_members c \<le> current_members c'"
    unfolding evolves_def by blast
  from admin_firstD(3)[OF inv c(1)] c(4) show "1 \<le> current_members c'" by simp
  from admin_firstD(4)[OF inv c(1)] c(2,3)
  show "\<exists>r \<in> set rs. m_committee_id r = c_id c' \<and> m_user_id r = admin_id c'" by simp
  fix r assume "r \<in> set rs" "m_committee_id r = c_id c'" "m_user_id r = admin_id c'"
  with admin_firstD(5)[OF inv c(1), of r] c(2,3) show "position r = 1" by simp
qed

lemma admin_first_join:
  assumes inv: "admin_first cs rs" and c0: "c0 \<in> set cs" "c_id c0 = m_committee_id r"
    and new: "\<not> (\<exists>r' \<in> set rs. m_committee_id r' = m_committee_id r \<and> m_user_id r' = m_user_id r)"
    and pos: "position r = current_members c0 + 1"
    and rs': "set rs' = insert r (set rs)"
  shows "admin_first cs rs'"
proof (rule admin_firstI)
  fix x assume "x \<in> set rs'"
  then consider "x = r" | "x \<in> set rs" using rs' by auto
  then show "\<exists>c \<in> set cs. c_id c = m_committee_id x"
    using c0 admin_firstD(1)[OF inv] by cases auto
next
  fix x assume "x \<in> set rs'"
  then consider "x = r" | "x \<in> set rs" using rs' by auto
  then show "1 \<le> position x"
    using pos admin_firstD(3)[OF inv c0(1)] admin_firstD(2)[OF inv] by cases auto
next
  fix c assume c: "c \<in> set cs"
  from admin_firstD(3)[OF inv c] show "1 \<le> current_members c" .
  from admin_firstD(4)[OF inv c] rs'
  show "\<exists>x \<in> set rs'. m_committee_id x = c_id c \<and> m_user_id x = admin_id c" by auto
next
  fix c x assume c: "c \<in> set cs" and x: "x \<in> set rs'"
    and eq: "m_committee_id x = c_id c" "m_user_id x = admin_id c"
  from x consider "x = r" | "x \<in> set rs" using rs' by auto
  then show "position x = 1"
  proof cases
    case 1
    from admin_firstD(4)[OF inv c] eq 1 new show ?thesis by auto
  next
    case 2
    from admin_firstD(5)[OF inv c 2 eq] show ?thesis .
  qed
qed

lemma admin_first_delete:
  assumes inv: "admin_first cs rs" and cs': "set cs' = {c \<in> set cs. c_id c \<noteq> cid}"
    and rs': "set rs' = {r \<in> set rs. m_committee_id r \<noteq> cid}"
  shows "admin_first cs' rs'"
proof (rule admin_firstI)
  fix r assume "r \<in> set rs'"
  with rs' have r: "r \<in> set rs" "m_committee_id r \<noteq> cid" by auto
  from admin_firstD(1)[OF inv r(1)] r(2) cs'
  show "\<exists>c \<in> set cs'. c_id c = m_committee_id r" by auto
  from admin_firstD(2)[OF inv r(1)] show "1 \<le> position r" .
next
  fix c assume "c \<in> set cs'"
  with cs' have c: "c \<in> set cs" "c_id c \<noteq> cid" by auto
  from admin_firstD(3)[OF inv c(1)] show "1 \<le> current_members c" .
  from admin_firstD(4)[OF inv c(1)] c(2) rs'
  show "\<exists>r \<in> set rs'. m_committee_id r = c_id c \<and> m_user_id r = admin_id c" by auto
  fix r assume "r \<in> set rs'" "m_committee_id r = c_id c" "m_user_id r = admin_id c"
  with rs' admin_firstD(5)[OF inv c(1), of r] show "position r = 1" by auto
qed

lemma evolves_map:
  assumes "\<And>c. c_id (f c) = c_id c \<and> admin_id (f c) = admin_id c
             \<and> current_members c \<le> current_members (f c)"
  shows "evolves cs (map f cs)"
  unfolding evolves_def
proof (intro conjI ballI subsetI)
  fix c' assume "c' \<in> set (map f cs)"
  then obtain c where "c \<in> set cs" "c' = f c" by auto
  with assms[of c] show "\<exists>c \<in> set cs. c_id c' = c_id c \<and> admin_id c' = admin_id c
        \<and> current_members c \<le> current_members c'" by auto
next
  fix k assume "k \<in> c_id ` set cs"
  then obtain c where "c \<in> set cs" "k = c_id c" by auto
  with assms[of c] have "f c \<in> set (map f cs)" "c_id (f c) = k" by auto
  then show "k \<in> c_id ` set (map f cs)" by (metis image_eqI)
qed

lemma update_fresh: "k \<notin> fst ` set d \<Longrightarrow> AList.update k v d = d @ [(k, v)]"
  by (induction d) auto

lemma values_update_fresh:
  "k \<notin> set (dict_keys d) \<Longrightarrow> set (dict_values (AList.update k v d)) = insert v (set (dict_values d))"
  by (simp add: dict_keys_def dict_values_def update_fresh)

lemma set_update_subset: "set (AList.update k v d) \<subseteq> insert (k, v) (set d)"
  by (induction d) auto

lemma keyed_dict_update:
  "keyed_dict d \<Longrightarrow> c_id v = k \<Longrightarrow> keyed_dict (AList.update k v d)"
  unfolding keyed_dict_def using set_update_subset[of k v d] by auto

lemma keyed_dict_delete: "keyed_dict d \<Longrightarrow> keyed_dict (AList.delete k d)"
  unfolding keyed_dict_def by (auto simp: AList.delete_eq)

lemma keyed_dict_ids: "keyed_dict d \<Longrightarrow> c_id ` set (dict_values d) = set (dict_keys d)"
  unfolding keyed_dict_def dict_values_def dict_keys_def by (force simp: image_iff)

lemma evolves_update:
  assumes kd: "keyed_dict d" and c: "map_of d k = Some c"
    and v: "c_id v = k" "admin_id v = admin_id c" "current_members c \<le> current_members v"
  shows "evolves (dict_values d) (dict_values (AList.update k v d))"
  unfolding evolves_def
proof (intro conjI ballI)
  fix c' assume "c' \<in> set (dict_values (AList.update k v d))"
  then obtain k' where "(k', c') \<in> set (AList.update k v d)"
    by (auto simp: dict_values_def)
  with set_update_subset[of k v d] consider "c' = v" | "(k', c') \<in> set d" by auto
  then show "\<exists>c \<in> set (dict_values d). c_id c' = c_id c \<and> admin_id c' = admin_id c
        \<and> current_members c \<le> current_members c'"
  proof cases
    case 1
    from c have in_d: "(k, c) \<in> set d" by (rule map_of_SomeD)
    then have "c \<in> set (dict_values d)" by (force simp: dict_values_def)
    moreover from in_d kd have "c_id c = k" unfolding keyed_dict_def by force
    ultimately show ?thesis using 1 v by auto
  next
    case 2
    then have "c' \<in> set (dict_values d)" by (force simp: dict_values_def)
    then show ?thesis by auto
  qed
next
  have "keyed_dict (AList.update k v d)" using kd v(1) by (rule keyed_dict_update)
  then have "c_id ` set (dict_values (AList.update k v d)) = set (dict_keys (AList.update k v d))"
    by (rule keyed_dict_ids)
  moreover have "set (dict_keys (AList.update k v d)) = insert k (set (dict_keys d))"
    using dom_update[of k v d] by (simp add: dict_keys_def)
  ultimately show "c_id ` set (dict_values d) \<subseteq> c_id ` set (dict_values (AList.update k v d))"
    using keyed_dict_ids[OF kd] by auto
qed

lemma values_delete:
  "keyed_dict d \<Longrightarrow>
   set (dict_values (AList.delete k d)) = {c \<in> set (dict_values d). c_id c \<noteq> k}"
  unfolding keyed_dict_def dict_values_def by (force simp: AList.delete_eq image_iff)

lemma values_filter_members:
  "set (dict_values (filter (\<lambda>(mid, member). m_committee_id member \<noteq> cid) d))
     = {r \<in> set (dict_values d). m_committee_id r \<noteq> cid}"
  unfolding dict_values_def by (force simp: image_iff)

lemma join_committee_database:
  "join_committee (Postgres db) cid uid mid now =
     (case join_committee_internal db cid uid mid now of (ok, db') \<Rightarrow> (ok, Postgres db'))"
  by (simp add: join_committee_internal_def split: option.splits)

lemma inv_create_user: "store_inv m \<Longrightarrow> store_inv (snd (create_user m un pw fn em ph rl cn uid now))"
  by (cases m) (simp_all add: store_inv_def)

lemma inv_update_user_profile:
  "store_inv m \<Longrightarrow> store_inv (snd (update_user_profile m uid fn em ph cn))"
  by (cases m) (simp_all add: store_inv_def split: option.splits)

lemma inv_send_committee_invitation:
  "store_inv m \<Longrightarrow> store_inv (snd (send_committee_invitation m cid iu ib msg iid now))"
  by (cases m) (simp_all add: store_inv_def)

lemma inv_create_committee:
  assumes inv: "store_inv m" and fresh: "cid \<notin> set (committee_ids m)" "mid \<notin> set (member_ids m)"
  shows "store_inv (snd (create_committee m t d a tot dur ct cat fr adm cid mid now))"
proof (cases m)
  case (Fallback fb)
  let ?c = "\<lparr>c_id = cid, title = t, description = d, monthly_amount = a,
            total_members = tot, current_members = 1, duration = dur, committee_type = ct,
            category = cat, payment_frequency = fr, status = ''active'', admin_id = adm,
            created_date = now\<rparr>"
  let ?r = "\<lparr>m_id = mid, m_committee_id = cid, m_user_id = adm, position = 1, joined_date = now\<rparr>"
  from inv Fallback have af: "admin_first (dict_values (fb_committees fb)) (dict_values (fb_committee_members fb))"
    and kd: "keyed_dict (fb_committees fb)"
    by (simp_all add: store_inv_def)
  from fresh Fallback have f1: "cid \<notin> set (dict_keys (fb_committees fb))"
    and f2: "mid \<notin> set (dict_keys (fb_committee_members fb))" by simp_all
  have "admin_first (dict_values (AList.update cid ?c (fb_committees fb)))
          (dict_values (AList.update mid ?r (fb_committee_members fb)))"
  proof (rule admin_first_create[OF af values_update_fresh[OF f1] values_update_fresh[OF f2]])
    show "c_id ?c \<notin> c_id ` set (dict_values (fb_committees fb))"
      using f1 keyed_dict_ids[OF kd] by simp
  qed simp_all
  moreover have "keyed_dict (AList.update cid ?c (fb_committees fb))"
    using kd by (rule keyed_dict_update) simp
  ultimately show ?thesis using Fallback by (simp add: store_inv_def)
next
  case (Postgres db)
  let ?c = "\<lparr>c_id = cid, title = t, description = d, monthly_amount = a,
            total_members = tot, current_members = 1, duration = dur, committee_type = ct,
            category = cat, payment_frequency = fr, status = ''active'', admin_id = adm,
            created_date = now\<rparr>"
  let ?r = "\<lparr>m_id = mid, m_committee_id = cid, m_user_id = adm, position = 1, joined_date = now\<rparr>"
  from inv Postgres have af: "admin_first (committees db) (committee_members db)"
    by (simp add: store_inv_def)
  have "admin_first (committees db @ [?c]) (committee_members db @ [?r])"
    if "cid \<notin> set (map c_id (committees db))"
    using af by (rule admin_first_create[where c = ?c and r = ?r]) (use that in simp_all)
  then show ?thesis using Postgres af by (simp add: store_inv_def)
qed

lemma inv_join_committee:
  assumes inv: "store_inv m" and fresh: "mid \<notin> set (member_ids m)"
  shows "store_inv (snd (join_committee m cid uid mid now))"
proof (cases m)
  case (Fallback fb)
  from inv Fallback have af: "admin_first (dict_values (fb_committees fb)) (dict_values (fb_committee_members fb))"
    and kd: "keyed_dict (fb_committees fb)"
    by (simp_all add: store_inv_def)
  from fresh Fallback have f2: "mid \<notin> set (dict_keys (fb_committee_members fb))" by simp
  show ?thesis
  proof (cases "map_of (fb_committees fb) cid")
    case None
    then show ?thesis using Fallback inv by simp
  next
    case (Some committee)
    let ?r = "\<lparr>m_id = mid, m_committee_id = cid, m_user_id = uid,
               position = current_members committee + 1, joined_date = now\<rparr>"
    let ?c = "committee\<lparr>current_members := current_members committee + 1\<rparr>"
    from Some have in_d: "(cid, committee) \<in> set (fb_committees fb)" by (rule map_of_SomeD)
    with kd have cid: "c_id committee = cid" unfolding keyed_dict_def by force
    from in_d have mem: "committee \<in> set (dict_values (fb_committees fb))"
      by (force simp: dict_values_def)
    have step: "admin_first (dict_values (AList.update cid ?c (fb_committees fb)))
                  (dict_values (AList.update mid ?r (fb_committee_members fb)))"
      if new: "\<not> (\<exists>member \<in> set (dict_values (fb_committee_members fb)).
                   m_committee_id member = cid \<and> m_user_id member = uid)"
    proof -
      have "admin_first (dict_values (fb_committees fb))
              (dict_values (AList.update mid ?r (fb_committee_members fb)))"
        using af mem
      proof (rule admin_first_join[where r = ?r])
        show "set (dict_values (AList.update mid ?r (fb_committee_members fb)))
                = insert ?r (set (dict_values (fb_committee_members fb)))"
          by (rule values_update_fresh[OF f2])
      qed (use cid new in simp_all)
      moreover have "evolves (dict_values (fb_committees fb))
                       (dict_values (AList.update cid ?c (fb_committees fb)))"
        using kd Some by (rule evolves_update) (simp_all add: cid)
      ultimately show ?thesis by (rule admin_first_evolves)
    qed
    have kd': "keyed_dict (AList.update cid ?c (fb_committees fb))"
      using kd by (rule keyed_dict_update) (simp add: cid)
    show ?thesis using Fallback Some af kd step kd' by (simp add: store_inv_def)
  qed
next
  case (Postgres db)
  from inv Postgres have af: "admin_first (committees db) (committee_members db)"
    by (simp add: store_inv_def)
  show ?thesis
  proof (cases "find (\<lambda>c. c_id c = cid) (committees db)")
    case None
    then show ?thesis using Postgres inv by simp
  next
    case (Some result)
    let ?r = "\<lparr>m_id = mid, m_committee_id = cid, m_user_id = uid,
               position = current_members result + 1, joined_date = now\<rparr>"
    let ?f = "\<lambda>c. if c_id c = cid then c\<lparr>current_members := current_members c + 1\<rparr> else c"
    from find_SomeD[OF Some] have res: "c_id result = cid" "result \<in> set (committees db)" by simp_all
    have step: "admin_first (map ?f (committees db)) (committee_members db @ [?r])"
      if new: "(cid, uid) \<notin> set (map (\<lambda>r. (m_committee_id r, m_user_id r)) (committee_members db))"
    proof -
      have "admin_first (committees db) (committee_members db @ [?r])"
        using af res(2)
      proof (rule admin_first_join[where r = ?r])
        show "\<not> (\<exists>r' \<in> set (committee_members db).
                  m_committee_id r' = m_committee_id ?r \<and> m_user_id r' = m_user_id ?r)"
          using new by (auto simp: image_iff)
      qed (use res in simp_all)
      moreover have "evolves (committees db) (map ?f (committees db))"
        by (rule evolves_map) simp
      ultimately show ?thesis by (rule admin_first_evolves)
    qed
    show ?thesis using Postgres Some af step by (simp add: store_inv_def)
  qed
qed

lemma inv_update_committee_settings:
  assumes inv: "store_inv m"
  shows "store_inv (snd (update_committee_settings m cid t d st fr cat ct))"
proof (cases m)
  case (Fallback fb)
  from inv Fallback have af: "admin_first (dict_values (fb_committees fb)) (dict_values (fb_committee_members fb))"
    and kd: "keyed_dict (fb_committees fb)"
    by (simp_all add: store_inv_def)
  show ?thesis
  proof (cases "map_of (fb_committees fb) cid")
    case None
    then show ?thesis using Fallback inv by simp
  next
    case (Some committee)
    let ?c = "committee\<lparr>title := t, description := d, status := st,
                payment_frequency := fr, category := cat, committee_type := ct\<rparr>"
    from Some have "(cid, committee) \<in> set (fb_committees fb)" by (rule map_of_SomeD)
    with kd have cid: "c_id committee = cid" unfolding keyed_dict_def by force
    have "evolves (dict_values (fb_committees fb))
            (dict_values (AList.update cid ?c (fb_committees fb)))"
      using kd Some by (rule evolves_update) (simp_all add: cid)
    with af have "admin_first (dict_values (AList.update cid ?c (fb_committees fb)))
            (dict_values (fb_committee_members fb))"
      by (rule admin_first_evolves)
    moreover have "keyed_dict (AList.update cid ?c (fb_committees fb))"
      using kd by (rule keyed_dict_update) (simp add: cid)
    ultimately show ?thesis using Fallback Some by (simp add: store_inv_def)
  qed
next
  case (Postgres db)
  let ?f = "\<lambda>c. if c_id c = cid
             then c\<lparr>title := t, description := d, status := st,
                    payment_frequency := fr, category := cat, committee_type := ct\<rparr>
             else c"
  from inv Postgres have af: "admin_first (committees db) (committee_members db)"
    by (simp add: store_inv_def)
  have "evolves (committees db) (map ?f (committees db))"
    by (rule evolves_map) simp
  with af have "admin_first (map ?f (committees db)) (committee_members db)"
    by (rule admin_first_evolves)
  then show ?thesis using Postgres by (simp add: store_inv_def)
qed

lemma inv_delete_committee:
  assumes inv: "store_inv m"
  shows "store_inv (snd (delete_committee m cid))"
proof (cases m)
  case (Fallback fb)
  from inv Fallback have af: "admin_first (dict_values (fb_committees fb)) (dict_values (fb_committee_members fb))"
    and kd: "keyed_dict (fb_committees fb)"
    by (simp_all add: store_inv_def)
  have "admin_first (dict_values (AList.delete cid (fb_committees fb)))
          (dict_values (filter (\<lambda>(mid, member). m_committee_id member \<noteq> cid)
             (fb_committee_members fb)))"
    using af values_delete[OF kd] values_filter_members by (rule admin_first_delete)
  moreover have "keyed_dict (AList.delete cid (fb_committees fb))"
    using kd by (rule keyed_dict_delete)
  ultimately show ?thesis using Fallback inv by (simp add: store_inv_def)
next
  case (Postgres db)
  from inv Postgres have af: "admin_first (committees db) (committee_members db)"
    by (simp add: store_inv_def)
  have "admin_first (filter (\<lambda>c. c_id c \<noteq> cid) (committees db))
          (filter (\<lambda>cm. m_committee_id cm \<noteq> cid) (committee_members db))"
    using af by (rule admin_first_delete) simp_all
  then show ?thesis using Postgres inv by (simp add: store_inv_def)
qed

lemma inv_respond_to_invitation:
  assumes inv: "store_inv m" and fresh: "mid \<notin> set (member_ids m)"
  shows "store_inv (snd (respond_to_invitation m iid response mid now))"
proof (cases m)
  case (Fallback fb)
  show ?thesis
  proof (cases "fallback_invitations fb")
    case None
    then show ?thesis using Fallback inv by simp
  next
    case (Some invs)
    show ?thesis
    proof (cases "map_of invs iid")
      case None
      then show ?thesis using Fallback Some inv by simp
    next
      case inv_found: (Some invitation)
      let ?fb' = "fb\<lparr>fallback_invitations := Some (AList.update iid
                    (invitation\<lparr>i_status := response, response_date := Some now\<rparr>) invs)\<rparr>"
      from inv Fallback have inv': "store_inv (Fallback ?fb')"
        by (simp add: store_inv_def)
      from fresh Fallback have "mid \<notin> set (member_ids (Fallback ?fb'))" by simp
      with inv' have joined: "store_inv (snd (join_committee (Fallback ?fb')
                        (i_committee_id invitation) (invited_user_id invitation) mid now))"
        by (rule inv_join_committee)
      have eq: "respond_to_invitation (Fallback fb) iid response mid now =
          (if response = ''accepted''
           then join_committee (Fallback ?fb') (i_committee_id invitation)
                  (invited_user_id invitation) mid now
           else (True, Fallback ?fb'))"
        using Some inv_found by (simp add: Let_def del: join_committee.simps)
      show ?thesis
      proof (cases "response = ''accepted''")
        case True
        with eq joined show ?thesis unfolding Fallback by (simp del: join_committee.simps)
      next
        case False
        with eq inv' show ?thesis unfolding Fallback by (simp del: join_committee.simps)
      qed
    qed
  qed
next
  case (Postgres db)
  define db1 where "db1 = db\<lparr>committee_invitations :=
                    map (\<lambda>i. if i_id i = iid \<and> i_status i = ''pending''
                              then i\<lparr>i_status := response, response_date := Some now\<rparr> else i)
                      (committee_invitations db)\<rparr>"
  from inv Postgres have inv0: "store_inv (Postgres db)" by simp
  then have inv1: "store_inv (Postgres db1)"
    by (simp add: store_inv_def db1_def)
  from fresh Postgres have f1: "mid \<notin> set (member_ids (Postgres db1))"
    by (simp add: db1_def)
  have internal: "store_inv (Postgres db2)"
    if "join_committee_internal db1 cid uid mid now = (ok, db2)" for cid uid ok db2
    using inv_join_committee[OF inv1 f1, of cid uid now] that
    by (simp add: join_committee_database del: join_committee.simps)
  have eq: "respond_to_invitation (Postgres db) iid response mid now =
      (if filter (\<lambda>i. i_id i = iid \<and> i_status i = ''pending'') (committee_invitations db) = []
       then (False, Postgres db)
       else if response = ''accepted''
         then (case find (\<lambda>i. i_id i = iid) (committee_invitations db1) of
                 None \<Rightarrow> (True, Postgres db1)
               | Some result \<Rightarrow>
                   (case join_committee_internal db1 (i_committee_id result)
                           (invited_user_id result) mid now of
                      (True, db2) \<Rightarrow> (True, Postgres db2)
                    | (False, db2) \<Rightarrow> (False, Postgres db)))
         else (True, Postgres db1))"
    unfolding db1_def by (simp add: Let_def)
  show ?thesis
    unfolding Postgres eq using inv0 inv1
    by (auto split: option.splits prod.splits bool.splits intro: internal)
qed

lemma store_inv_exec: "store_inv m \<Longrightarrow> uuid_fresh m c \<Longrightarrow> store_inv (snd (exec m c))"
  by (cases c)
    (simp_all add: inv_create_user inv_create_committee inv_join_committee
       inv_update_user_profile inv_update_committee_settings inv_delete_committee
       inv_send_committee_invitation inv_respond_to_invitation)

lemma admin_first_Nil: "admin_first [] []"
  by (simp add: admin_first_def)

lemma reachable_store_inv: "reachable m \<Longrightarrow> store_inv m"
proof (induction rule: reachable.induct)
  case (start_fallback demo_admin_id demo_member_id pw now)
  then show ?case
    by (simp add: store_inv_def init_fallback_storage_def dict_values_def admin_first_Nil
        keyed_dict_def)
next
  case (start_database demo_admin_id demo_member_id pw now)
  then show ?case
    by (simp add: store_inv_def create_demo_users_def empty_database_def admin_first_Nil)
next
  case (step m c)
  then show ?case by (simp add: store_inv_exec)
qed

section \<open>Invitations: accepting into a committee that has filled up\<close>

text \<open>
  On the database both statements of \<^verbatim>\<open>respond_to_invitation\<close> run in one transaction:
  whenever the call returns \<^verbatim>\<open>False\<close> the database is the one it started from.
\<close>

lemma respond_to_invitation_database_atomic:
  "respond_to_invitation (Postgres db) invitation_id response member_id now = (False, m') \<Longrightarrow>
   m' = Postgres db"
  by (auto simp: Let_def split: if_splits option.splits prod.splits bool.splits)

text \<open>
  Claim C1. Accepting an invitation whose join fails must return false, must not leave the
  invitation accepted and must create no membership. In the store \<^const>\<open>full_fallback\<close>
  the committee \<open>c-1\<close> is full and the invitation \<open>i-2\<close> of \<open>u-carol\<close> is pending. On the
  database the call returns false and changes nothing. On the fallback store the call
  returns false and creates no membership, but the invitation stays \<open>accepted\<close>: the
  status is written before \<^verbatim>\<open>join_committee\<close> is tried and is never taken back.
\<close>

theorem accept_into_full_committee:
  "respond_to_invitation full_database ''i-2'' ''accepted'' ''m-3'' t0 = (False, full_database)
   \<and> fst (respond_to_invitation full_fallback ''i-2'' ''accepted'' ''m-3'' t0) = False
   \<and> map (\<lambda>i. (i_id i, i_status i)) (invitation_rows full_fallback)
       = [(''i-1'', ''accepted''), (''i-2'', ''pending'')]
   \<and> map (\<lambda>i. (i_id i, i_status i))
         (invitation_rows (snd (respond_to_invitation full_fallback ''i-2'' ''accepted'' ''m-3'' t0)))
       = [(''i-1'', ''accepted''), (''i-2'', ''accepted'')]
   \<and> member_rows (snd (respond_to_invitation full_fallback ''i-2'' ''accepted'' ''m-3'' t0))
       = member_rows full_fallback"
  by code_simp

section \<open>Joining a committee\<close>

text \<open>
  Claim C2. When the committee read by \<^verbatim>\<open>join_committee\<close> has
  \<open>current_members = total_members\<close>, or when the user already is a member of the
  committee, the call returns \<^verbatim>\<open>False\<close> (the model has no other outcome: every
  \<^verbatim>\<open>psycopg2.Error\<close> is caught) and the whole store is as before.
\<close>

theorem join_soft_failure:
  assumes "(\<exists>c. lookup_committee m committee_id = Some c \<and> current_members c = total_members c)
           \<or> is_member m committee_id user_id"
  shows "join_committee m committee_id user_id member_id now = (False, m)"
  using assms
  by (cases m) (auto simp: is_member_def split: option.splits)

theorem join_soft_failure_witness:
  "map_option (\<lambda>c. (current_members c, total_members c)) (lookup_committee full_fallback ''c-1'')
     = Some (2, 2)
   \<and> is_member full_database ''c-1'' ''u-member''
   \<and> join_committee full_fallback ''c-1'' ''u-carol'' ''m-3'' t0 = (False, full_fallback)
   \<and> join_committee full_database ''c-1'' ''u-member'' ''m-3'' t0 = (False, full_database)"
proof -
  have full: "map_option (\<lambda>c. (current_members c, total_members c))
                (lookup_committee full_fallback ''c-1'') = Some (2, 2)"
    by code_simp
  have mem: "is_member full_database ''c-1'' ''u-member''"
    by code_simp
  from full have "\<exists>c. lookup_committee full_fallback ''c-1'' = Some c
                    \<and> current_members c = total_members c"
    by auto
  then have "join_committee full_fallback ''c-1'' ''u-carol'' ''m-3'' t0 = (False, full_fallback)"
    by (intro join_soft_failure disjI1)
  moreover from mem
  have "join_committee full_database ''c-1'' ''u-member'' ''m-3'' t0 = (False, full_database)"
    by (intro join_soft_failure disjI2)
  ultimately show ?thesis using full mem by blast
qed

section \<open>Trust score\<close>

lemma payment_score_Nil: "calculate_payment_score [] = 0"
  by (simp add: calculate_payment_score_def)

lemma completion_score_Nil: "calculate_completion_score [] = 0"
  by (simp add: calculate_completion_score_def)

lemma tenure_score_zero: "calculate_tenure_score m user_id now = 0"
  by (simp add: calculate_tenure_score_def attr_created_date_def split: option.splits)

text \<open>
  Claim C3. For every store, user and clock, \<^verbatim>\<open>calculate_trust_score\<close> returns an integer
  between 0 and 100.
\<close>

theorem trust_score_bounds:
  "0 \<le> calculate_trust_score m user_id now \<and> calculate_trust_score m user_id now \<le> 100"
  by (simp add: calculate_trust_score_def Let_def)

theorem trust_score_bounds_witness:
  "calculate_trust_score full_fallback ''u-admin'' t0 = 52
   \<and> 0 \<le> calculate_trust_score full_fallback ''u-admin'' t0
   \<and> calculate_trust_score full_fallback ''u-admin'' t0 \<le> 100"
proof -
  have "calculate_trust_score full_fallback ''u-admin'' t0 = 52"
    by code_simp
  then show ?thesis
    using trust_score_bounds[of full_fallback "''u-admin''" t0] by simp
qed

text \<open>
  Claim C4. A user with no payments and no committees gets exactly 85, whereas the
  components (base 50, payment 0, completion 0, tenure 0) add up to 50.
\<close>

theorem trust_score_bootstrap:
  assumes "get_user_payment_history m user_id = []" and "get_user_committees m user_id = []"
  shows "calculate_trust_score m user_id now = 85
     \<and> min 100 (max 0 (50
          + calculate_payment_score (map payment_object (get_user_payment_history m user_id))
          + calculate_completion_score (get_user_committees m user_id)
          + calculate_tenure_score m user_id now)) = 50"
  using assms
  by (simp add: calculate_trust_score_def payment_score_Nil completion_score_Nil
      tenure_score_zero)

theorem trust_score_bootstrap_witness:
  "get_user_payment_history demo_database ''u-member'' = []
   \<and> get_user_committees demo_database ''u-member'' = []
   \<and> calculate_trust_score demo_database ''u-member'' t0 = 85"
proof -
  have p: "get_user_payment_history demo_database ''u-member'' = []"
    by code_simp
  have c: "get_user_committees demo_database ''u-member'' = []"
    by code_simp
  from trust_score_bootstrap[OF p c, of t0] p c show ?thesis by simp
qed

section \<open>Payment schedule\<close>

lemma schedule_loop_ok:
  "\<forall>cy \<in> set cys. add_days d (i * cy) = Inr (d\<lparr>ordinal := ordinal d + i * cy\<rparr>) \<Longrightarrow>
   schedule_loop d i cys acc =
     Inr (acc @ map (\<lambda>cy. \<lparr>cycle = cy + 1, due_date = d\<lparr>ordinal := ordinal d + i * cy\<rparr>,
                           amount_per_member = None\<rparr>) cys)"
  by (induction cys arbitrary: acc) auto

lemma schedule_loop_raises:
  "cy \<in> set cys \<Longrightarrow> add_days d (i * cy) = Inl e \<Longrightarrow> \<exists>e'. schedule_loop d i cys acc = Inl e'"
  by (induction cys arbitrary: acc) (auto split: sum.splits)

lemma Inl_py_error: "r = Inl e \<Longrightarrow> r = Inl OverflowError"
  by (cases e) simp

lemma schedule_example:
  "map_sum id (map (\<lambda>e. ymd (due_date e)))
     (calculate_payment_schedule committee_id (mk_date 2025 1 1) ''monthly'' 3)
   = Inr [(2025, 1, 1), (2025, 1, 31), (2025, 3, 2)]"
  unfolding calculate_payment_schedule_def by code_simp

text \<open>
  Claim C6 as stated, for every duration, fails: a \<^verbatim>\<open>datetime\<close> ends at 9999-12-31, and
  for a start on 2025-01-01 the 100000 monthly cycles run past it, so the call raises
  \<^verbatim>\<open>OverflowError\<close> instead of returning 100000 entries.
\<close>

theorem schedule_overflow_counterexample:
  "calculate_payment_schedule ''c-1'' (mk_date 2025 1 1) ''monthly'' 100000 = Inl OverflowError"
proof -
  have "add_days (mk_date 2025 1 1) (30 * 99999) = Inl OverflowError"
    by code_simp
  moreover have "(99999::int) \<in> set (py_range 100000)"
    by (simp add: py_range_def)
  ultimately obtain e' where "schedule_loop (mk_date 2025 1 1) 30 (py_range 100000) [] = Inl e'"
    using schedule_loop_raises by blast
  then have "schedule_loop (mk_date 2025 1 1) 30 (py_range 100000) [] = Inl OverflowError"
    by (rule Inl_py_error)
  then show ?thesis
    unfolding calculate_payment_schedule_def Let_def by simp
qed

text \<open>
  Claim C6, amended. For a start date that is a \<^verbatim>\<open>datetime\<close>, a frequency of monthly or
  bi-monthly and a duration of at least 1: when the last due date
  \<open>start_date + interval_days * (duration - 1)\<close> is not after 9999-12-31, the schedule has
  exactly \<open>duration\<close> entries, entry \<open>k\<close> (from 0) has cycle number \<open>k + 1\<close> and due
  date \<open>start_date + interval_days * k\<close> days, with 30 days for monthly and 60 for
  bi-monthly; when the last due date is after 9999-12-31, the call raises
  \<^verbatim>\<open>OverflowError\<close>. From 2025-01-01, monthly, 3 cycles the due dates are 2025-01-01,
  2025-01-31 and 2025-03-02.
\<close>

theorem payment_schedule_in_range:
  assumes freq: "freq = ''monthly'' \<or> freq = ''bi_monthly''"
    and dur: "1 \<le> dur"
    and lo: "MINORDINAL \<le> ordinal start_date"
  shows "(ordinal start_date + interval_of freq * (dur - 1) \<le> MAXORDINAL \<longrightarrow>
          (\<exists>sched. calculate_payment_schedule committee_id start_date freq dur = Inr sched
            \<and> length sched = nat dur
            \<and> (\<forall>k < nat dur. sched ! k =
                  \<lparr>cycle = int k + 1,
                   due_date = start_date\<lparr>ordinal := ordinal start_date + interval_of freq * int k\<rparr>,
                   amount_per_member = None\<rparr>)))
         \<and> (MAXORDINAL < ordinal start_date + interval_of freq * (dur - 1) \<longrightarrow>
              calculate_payment_schedule committee_id start_date freq dur = Inl OverflowError)
         \<and> map_sum id (map (\<lambda>e. ymd (due_date e)))
             (calculate_payment_schedule committee_id (mk_date 2025 1 1) ''monthly'' 3)
           = Inr [(2025, 1, 1), (2025, 1, 31), (2025, 3, 2)]"
proof (intro conjI impI)
  let ?i = "interval_of freq"
  have eq: "(if freq = ''monthly'' then 30 else if freq = ''bi_monthly'' then 60 else 30) = ?i"
    using freq by (auto simp: interval_of_def)
  {
    assume hi: "ordinal start_date + ?i * (dur - 1) \<le> MAXORDINAL"
    let ?f = "\<lambda>cy. \<lparr>cycle = cy + 1, due_date = start_date\<lparr>ordinal := ordinal start_date + ?i * cy\<rparr>,
                   amount_per_member = None\<rparr>"
    have i: "0 \<le> ?i" by (simp add: interval_of_def)
    have day: "add_days start_date (?i * cy)
               = Inr (start_date\<lparr>ordinal := ordinal start_date + ?i * cy\<rparr>)"
      if "cy \<in> set (py_range dur)" for cy
    proof -
      from that have cy: "0 \<le> cy" "cy \<le> dur - 1" by (simp_all add: py_range_def)
      have "?i * cy \<le> ?i * (dur - 1)" using cy i by (simp add: mult_left_mono)
      moreover have "0 \<le> ?i * cy" using cy i by simp
      ultimately show ?thesis
        using lo hi by (simp add: add_days_def MINORDINAL_def MAXORDINAL_def)
    qed
    have run: "calculate_payment_schedule committee_id start_date freq dur
               = Inr (map ?f (py_range dur))"
      unfolding calculate_payment_schedule_def Let_def eq
      using schedule_loop_ok[of "py_range dur" start_date ?i "[]"] day by simp
    have len: "length (map ?f (py_range dur)) = nat dur"
      using dur by (simp add: py_range_def)
    have nth: "map ?f (py_range dur) ! k = ?f (int k)" if "k < nat dur" for k
      using that dur by (simp add: py_range_def)
    show "\<exists>sched. calculate_payment_schedule committee_id start_date freq dur = Inr sched
            \<and> length sched = nat dur
            \<and> (\<forall>k < nat dur. sched ! k =
                  \<lparr>cycle = int k + 1,
                   due_date = start_date\<lparr>ordinal := ordinal start_date + ?i * int k\<rparr>,
                   amount_per_member = None\<rparr>)"
      using run len nth by blast
  }
  {
    assume over: "MAXORDINAL < ordinal start_date + ?i * (dur - 1)"
    have last: "dur - 1 \<in> set (py_range dur)"
      using dur by (simp add: py_range_def)
    have "add_days start_date (?i * (dur - 1)) = Inl OverflowError"
      using over by (simp add: add_days_def)
    with last obtain e' where
      "schedule_loop start_date ?i (py_range dur) [] = Inl e'"
      using schedule_loop_raises by blast
    then have "schedule_loop start_date ?i (py_range dur) [] = Inl OverflowError"
      by (rule Inl_py_error)
    then show "calculate_payment_schedule committee_id start_date freq dur = Inl OverflowError"
      unfolding calculate_payment_schedule_def Let_def eq by simp
  }
  show "map_sum id (map (\<lambda>e. ymd (due_date e)))
             (calculate_payment_schedule committee_id (mk_date 2025 1 1) ''monthly'' 3)
           = Inr [(2025, 1, 1), (2025, 1, 31), (2025, 3, 2)]"
    by (rule schedule_example)
qed

theorem payment_schedule_in_range_witness:
  "(''bi_monthly'' = ''monthly'' \<or> ''bi_monthly'' = ''bi_monthly'')
   \<and> (1::int) \<le> 3
   \<and> MINORDINAL \<le> ordinal t0
   \<and> ordinal t0 + interval_of ''bi_monthly'' * (3 - 1) \<le> MAXORDINAL
   \<and> (\<exists>sched. calculate_payment_schedule ''c-3'' t0 ''bi_monthly'' 3 = Inr sched
         \<and> length sched = nat 3
         \<and> (\<forall>k < nat 3. sched ! k =
               \<lparr>cycle = int k + 1,
                due_date = t0\<lparr>ordinal := ordinal t0 + interval_of ''bi_monthly'' * int k\<rparr>,
                amount_per_member = None\<rparr>))
   \<and> (''monthly'' = ''monthly'' \<or> ''monthly'' = ''bi_monthly'')
   \<and> (1::int) \<le> 97095
   \<and> ordinal t0 + interval_of ''monthly'' * (97095 - 1) = MAXORDINAL + 13
   \<and> calculate_payment_schedule ''c-1'' t0 ''monthly'' 97095 = Inl OverflowError"
proof -
  have f: "''bi_monthly'' = ''monthly'' \<or> ''bi_monthly'' = ''bi_monthly''" by simp
  have d: "(1::int) \<le> 3" by simp
  have lo: "MINORDINAL \<le> ordinal t0" by code_simp
  have hi: "ordinal t0 + interval_of ''bi_monthly'' * (3 - 1) \<le> MAXORDINAL" by code_simp
  note inside = payment_schedule_in_range[OF f d lo, of "''c-3''", THEN conjunct1, THEN mp, OF hi]
  have f': "''monthly'' = ''monthly'' \<or> ''monthly'' = ''bi_monthly''" by simp
  have d': "(1::int) \<le> 97095" by simp
  have past: "ordinal t0 + interval_of ''monthly'' * (97095 - 1) = MAXORDINAL + 13" by code_simp
  then have over: "MAXORDINAL < ordinal t0 + interval_of ''monthly'' * (97095 - 1)" by simp
  note outside = payment_schedule_in_range[OF f' d' lo, of "''c-1''", THEN conjunct2,
      THEN conjunct1, THEN mp, OF over]
  from f d lo hi inside f' d' past outside show ?thesis by (intro conjI)
qed

section \<open>Payout amounts\<close>

lemma queue_loop_amounts:
  "map (\<lambda>e. (q_position e, q_amount e)) (queue_loop c mp ps acc) =
     map (\<lambda>e. (q_position e, q_amount e)) acc
     @ map (\<lambda>pos. (pos, monthly_amount c * current_members c)) ps"
  by (induction ps arbitrary: acc) (simp_all add: Let_def)

lemma notification_loop_result:
  assumes "add_days now 7 = Inr est"
  shows "notification_loop m user_id now cs acc =
     Inr (acc @ map (\<lambda>c. \<lparr>n_committee_id = c_id c, n_committee_title = title c,
                            n_amount = monthly_amount c * current_members c,
                            estimated_date = est\<rparr>)
                  (filter (\<lambda>c. get_member_position_in_committee m (c_id c) user_id = 1) cs))"
  using assms by (induction cs arbitrary: acc) (simp_all add: Let_def)

lemma find_map_same_id:
  assumes "\<And>c. c_id (f c) = c_id c"
  shows "find (\<lambda>c. c_id c = cid) (map f cs) = map_option f (find (\<lambda>c. c_id c = cid) cs)"
  using assms by (induction cs) simp_all

lemma join_committee_grows:
  assumes join: "join_committee m cid uid mid now = (True, m')"
    and c0: "lookup_committee m cid = Some c0"
  shows "lookup_committee m' cid = Some (c0\<lparr>current_members := current_members c0 + 1\<rparr>)"
proof (cases m)
  case (Fallback fb)
  with c0 have look: "map_of (fb_committees fb) cid = Some c0" by simp
  from join Fallback look have "m' = Fallback (fb
                 \<lparr>fb_committee_members := AList.update mid
                    \<lparr>m_id = mid, m_committee_id = cid, m_user_id = uid,
                     position = current_members c0 + 1, joined_date = now\<rparr>
                    (fb_committee_members fb),
                  fb_committees := AList.update cid
                    (c0\<lparr>current_members := current_members c0 + 1\<rparr>)
                    (fb_committees fb)\<rparr>)"
    by (simp split: if_splits)
  then show ?thesis by (simp add: update_conv')
next
  case (Postgres db)
  let ?f = "\<lambda>c. if c_id c = cid then c\<lparr>current_members := current_members c + 1\<rparr> else c"
  from c0 Postgres have look: "find (\<lambda>c. c_id c = cid) (committees db) = Some c0" by simp
  from find_SomeD[OF look] have cid: "c_id c0 = cid" by simp
  from join Postgres look have "committees (case m' of Postgres db' \<Rightarrow> db' | Fallback _ \<Rightarrow> db)
      = map ?f (committees db)" and "\<exists>db'. m' = Postgres db'"
    by (auto split: if_splits)
  then obtain db' where m': "m' = Postgres db'" and cs: "committees db' = map ?f (committees db)"
    by auto
  have "find (\<lambda>c. c_id c = cid) (map ?f (committees db))
          = map_option ?f (find (\<lambda>c. c_id c = cid) (committees db))"
    by (rule find_map_same_id) simp
  with look cid show ?thesis unfolding m' by (simp add: cs)
qed

text \<open>
  The estimate of the committee browser is the payout of the committee once it is full.
\<close>

lemma estimated_payout_when_full:
  "current_members c = total_members c \<Longrightarrow> estimated_payout c = monthly_pool c"
  by (simp add: estimated_payout_def monthly_pool_def)

text \<open>
  Claim C7. For every committee the payout of every position \<open>1 .. current_members\<close>
  in the payout queue is \<open>monthly_amount * current_members\<close>, and so is the payout
  amount of the payout schedule page; \<open>total_members\<close> does not enter. With a clock
  at least seven days before 9999-12-31, \<^verbatim>\<open>get_payout_notifications\<close> reports exactly the
  committees of the user in which the user holds position 1, each with
  \<open>monthly_amount * current_members\<close> of the committee as it is stored at the call. The
  amount is not fixed at creation: after a join that succeeds, the committee read from
  the store has one more current member and its payout has grown by \<open>monthly_amount\<close>.
\<close>

theorem payout_amount_current_members:
  "map (\<lambda>e. (q_position e, q_amount e)) (payout_queue m c user_id)
     = map (\<lambda>pos. (pos, monthly_amount c * current_members c)) [1..current_members c]
   \<and> monthly_pool c = monthly_amount c * current_members c
   \<and> (MINORDINAL \<le> ordinal now + 7 \<and> ordinal now + 7 \<le> MAXORDINAL \<longrightarrow>
        get_payout_notifications m user_id now =
          Inr (map (\<lambda>c. \<lparr>n_committee_id = c_id c, n_committee_title = title c,
                           n_amount = monthly_amount c * current_members c,
                           estimated_date = now\<lparr>ordinal := ordinal now + 7\<rparr>\<rparr>)
                 (first_in_queue m user_id)))
   \<and> set (first_in_queue m user_id) \<subseteq> set (committee_rows m)
   \<and> (join_committee m cid uid mid t = (True, m') \<longrightarrow> lookup_committee m cid = Some c0 \<longrightarrow>
        lookup_committee m' cid = Some (c0\<lparr>current_members := current_members c0 + 1\<rparr>)
        \<and> monthly_pool (c0\<lparr>current_members := current_members c0 + 1\<rparr>)
            = monthly_pool c0 + monthly_amount c0)"
proof (intro conjI impI)
  show "map (\<lambda>e. (q_position e, q_amount e)) (payout_queue m c user_id)
     = map (\<lambda>pos. (pos, monthly_amount c * current_members c)) [1..current_members c]"
    by (simp add: payout_queue_def Let_def queue_loop_amounts)
  show "monthly_pool c = monthly_amount c * current_members c"
    by (simp add: monthly_pool_def)
  show "set (first_in_queue m user_id) \<subseteq> set (committee_rows m)"
    using user_committees_stored[of m user_id] by (auto simp: first_in_queue_def)
next
  assume "MINORDINAL \<le> ordinal now + 7 \<and> ordinal now + 7 \<le> MAXORDINAL"
  then have "add_days now 7 = Inr (now\<lparr>ordinal := ordinal now + 7\<rparr>)"
    by (simp add: add_days_def)
  from notification_loop_result[OF this, of m user_id "get_user_committees m user_id" "[]"]
  show "get_payout_notifications m user_id now =
          Inr (map (\<lambda>c. \<lparr>n_committee_id = c_id c, n_committee_title = title c,
                           n_amount = monthly_amount c * current_members c,
                           estimated_date = now\<lparr>ordinal := ordinal now + 7\<rparr>\<rparr>)
                 (first_in_queue m user_id))"
    by (simp add: get_payout_notifications_def first_in_queue_def)
next
  assume "join_committee m cid uid mid t = (True, m')" "lookup_committee m cid = Some c0"
  then show "lookup_committee m' cid = Some (c0\<lparr>current_members := current_members c0 + 1\<rparr>)"
    by (rule join_committee_grows)
next
  show "monthly_pool (c0\<lparr>current_members := current_members c0 + 1\<rparr>)
            = monthly_pool c0 + monthly_amount c0"
    by (simp add: monthly_pool_def algebra_simps)
qed

theorem payout_amount_current_members_witness:
  "map (\<lambda>e. (q_position e, q_amount e)) (payout_queue browse_database six_of_ten ''u-admin'')
     = [(1, 30000), (2, 30000), (3, 30000), (4, 30000), (5, 30000), (6, 30000)]
   \<and> monthly_amount six_of_ten * total_members six_of_ten = 50000
   \<and> MINORDINAL \<le> ordinal t0 + 7 \<and> ordinal t0 + 7 \<le> MAXORDINAL
   \<and> map c_id (first_in_queue browse_database ''u-admin'') = [''c-1'', ''c-2'', ''c-3'']
   \<and> map_sum id (map (\<lambda>n. (n_committee_id n, n_amount n)))
        (get_payout_notifications browse_database ''u-admin'' t0)
       = Inr [(''c-1'', 10000), (''c-2'', 3000), (''c-3'', 8000)]
   \<and> fst (join_committee browse_database ''c-2'' ''u-carol'' ''m-7'' t0) = True
   \<and> lookup_committee browse_database ''c-2'' = Some open_circle
   \<and> monthly_pool open_circle = 3000
   \<and> map_option monthly_pool
        (lookup_committee (snd (join_committee browse_database ''c-2'' ''u-carol'' ''m-7'' t0)) ''c-2'')
       = Some 6000"
proof -
  note T = payout_amount_current_members[where m = browse_database and c = six_of_ten
      and user_id = "''u-admin''" and now = t0 and cid = "''c-2''" and uid = "''u-carol''"
      and mid = "''m-7''" and t = t0
      and m' = "snd (join_committee browse_database ''c-2'' ''u-carol'' ''m-7'' t0)"
      and ?c0.0 = open_circle]
  have six: "[1..current_members six_of_ten] = [1, 2, 3, 4, 5, 6]"
    "monthly_amount six_of_ten * current_members six_of_ten = 30000"
    "monthly_amount six_of_ten * total_members six_of_ten = 50000"
    by code_simp+
  from T[THEN conjunct1] six
  have q: "map (\<lambda>e. (q_position e, q_amount e)) (payout_queue browse_database six_of_ten ''u-admin'')
     = [(1, 30000), (2, 30000), (3, 30000), (4, 30000), (5, 30000), (6, 30000)]"
    by simp
  have clock: "MINORDINAL \<le> ordinal t0 + 7 \<and> ordinal t0 + 7 \<le> MAXORDINAL" by code_simp
  have firsts: "map (\<lambda>c. (c_id c, monthly_amount c * current_members c))
                  (first_in_queue browse_database ''u-admin'')
                = [(''c-1'', 10000), (''c-2'', 3000), (''c-3'', 8000)]"
    by code_simp
  have ids: "map c_id (first_in_queue browse_database ''u-admin'') = [''c-1'', ''c-2'', ''c-3'']"
    by code_simp
  from T[THEN conjunct2, THEN conjunct2, THEN conjunct1, THEN mp, OF clock]
  have "map_sum id (map (\<lambda>n. (n_committee_id n, n_amount n)))
        (get_payout_notifications browse_database ''u-admin'' t0)
       = Inr (map (\<lambda>c. (c_id c, monthly_amount c * current_members c))
                (first_in_queue browse_database ''u-admin''))"
    by (simp add: comp_def)
  with firsts have n: "map_sum id (map (\<lambda>n. (n_committee_id n, n_amount n)))
        (get_payout_notifications browse_database ''u-admin'' t0)
       = Inr [(''c-1'', 10000), (''c-2'', 3000), (''c-3'', 8000)]"
    by simp
  have ok: "fst (join_committee browse_database ''c-2'' ''u-carol'' ''m-7'' t0) = True"
    by code_simp
  then have call: "join_committee browse_database ''c-2'' ''u-carol'' ''m-7'' t0
      = (True, snd (join_committee browse_database ''c-2'' ''u-carol'' ''m-7'' t0))"
    by (simp add: prod_eq_iff)
  have look: "lookup_committee browse_database ''c-2'' = Some open_circle" by code_simp
  have pool: "monthly_pool open_circle = 3000" "monthly_amount open_circle = 3000" by code_simp+
  from T[THEN conjunct2, THEN conjunct2, THEN conjunct2, THEN conjunct2, THEN mp, OF call,
      THEN mp, OF look] pool
  have grown: "map_option monthly_pool
        (lookup_committee (snd (join_committee browse_database ''c-2'' ''u-carol'' ''m-7'' t0)) ''c-2'')
       = Some 6000"
    by simp
  from q six(3) clock ids n ok look pool(1) grown show ?thesis by (intro conjI) simp_all
qed

section \<open>Browsing public committees\<close>

text \<open>
  Claim C9. \<^verbatim>\<open>get_public_committees_for_user\<close> returns exactly the stored committees
  that are public, that the user has not joined and that have
  \<open>current_members < total_members\<close>; a full public committee is never returned.
\<close>

theorem public_committees_open_only:
  "c \<in> set (get_public_committees_for_user m user_id) \<longleftrightarrow>
     c \<in> set (committee_rows m) \<and> committee_type c = ''public''
     \<and> \<not> is_member m (c_id c) user_id \<and> current_members c < total_members c"
proof (cases m)
  case (Fallback fb)
  then show ?thesis
    unfolding is_member_def by (simp add: Let_def joined_ids_iff del: set_map set_filter) auto
next
  case (Postgres db)
  then show ?thesis
    unfolding is_member_def by (simp add: joined_ids_iff del: set_map set_filter) auto
qed

theorem public_committees_open_only_witness:
  "map c_id (get_public_committees_for_user browse_fallback ''u-carol'') = [''c-2'']
   \<and> open_circle \<in> set (get_public_committees_for_user browse_fallback ''u-carol'')
   \<and> open_circle \<notin> set (get_public_committees_for_user browse_fallback ''u-admin'')
   \<and> full_circle \<in> set (committee_rows browse_fallback)
   \<and> committee_type full_circle = ''public''
   \<and> \<not> is_member browse_fallback (c_id full_circle) ''u-carol''
   \<and> full_circle \<notin> set (get_public_committees_for_user browse_fallback ''u-carol'')"
proof -
  have ids: "map c_id (get_public_committees_for_user browse_fallback ''u-carol'') = [''c-2'']"
    by code_simp
  have rows: "committee_rows browse_fallback
                = map (\<lambda>c. c) (committee_rows full_fallback) @ [open_circle, full_circle]"
    by code_simp
  have mem: "\<not> is_member browse_fallback ''c-2'' ''u-carol''"
            "is_member browse_fallback ''c-2'' ''u-admin''"
            "\<not> is_member browse_fallback ''c-3'' ''u-carol''"
    by code_simp+
  have "open_circle \<in> set (get_public_committees_for_user browse_fallback ''u-carol'')"
    unfolding public_committees_open_only using rows mem by (simp add: open_circle_def)
  moreover have "open_circle \<notin> set (get_public_committees_for_user browse_fallback ''u-admin'')"
    unfolding public_committees_open_only using mem by (simp add: open_circle_def)
  moreover have "full_circle \<notin> set (get_public_committees_for_user browse_fallback ''u-carol'')"
    unfolding public_committees_open_only by (simp add: full_circle_def)
  moreover have "full_circle \<in> set (committee_rows browse_fallback)"
    using rows by simp
  moreover have "committee_type full_circle = ''public''"
    by (simp add: full_circle_def)
  moreover have "\<not> is_member browse_fallback (c_id full_circle) ''u-carol''"
    using mem by (simp add: full_circle_def)
  ultimately show ?thesis using ids by blast
qed

section \<open>The admin is first in the payout queue\<close>

lemma fresh_browsing_fallback: "fresh_run full_fallback browsing_calls"
  by code_simp

lemma fresh_browsing_database: "fresh_run full_database browsing_calls"
  by code_simp

lemma reachable_browse_fallback: "reachable browse_fallback"
  unfolding browse_fallback_def
  by (rule reachable_run[OF reachable_full_fallback fresh_browsing_fallback])

lemma reachable_browse_database: "reachable browse_database"
  unfolding browse_database_def
  by (rule reachable_run[OF reachable_full_database fresh_browsing_database])

lemma find_append_fresh:
  "cid \<notin> set (map c_id cs) \<Longrightarrow> c_id c = cid \<Longrightarrow> find (\<lambda>c. c_id c = cid) (cs @ [c]) = Some c"
  by (induction cs) auto

lemma create_committee_persists:
  assumes "create_committee m t d a tot dur ct cat fr adm cid mid now = (True, m')"
  shows "(\<exists>c. lookup_committee m' cid = Some c \<and> c_id c = cid \<and> admin_id c = adm
            \<and> current_members c = 1 \<and> status c = ''active'')
       \<and> (\<exists>r \<in> set (member_rows m'). m_committee_id r = cid \<and> m_user_id r = adm
            \<and> position r = 1)"
proof (cases m)
  case (Fallback fb)
  let ?c = "\<lparr>c_id = cid, title = t, description = d, monthly_amount = a,
            total_members = tot, current_members = 1, duration = dur, committee_type = ct,
            category = cat, payment_frequency = fr, status = ''active'', admin_id = adm,
            created_date = now\<rparr>"
  let ?r = "\<lparr>m_id = mid, m_committee_id = cid, m_user_id = adm, position = 1, joined_date = now\<rparr>"
  from assms Fallback have m': "m' = Fallback (fb
        \<lparr>fb_committees := AList.update cid ?c (fb_committees fb),
         fb_committee_members := AList.update mid ?r (fb_committee_members fb)\<rparr>)"
    by simp
  have "lookup_committee m' cid = Some ?c"
    unfolding m' by (simp add: update_conv')
  then have first: "\<exists>c. lookup_committee m' cid = Some c \<and> c_id c = cid \<and> admin_id c = adm
            \<and> current_members c = 1 \<and> status c = ''active''"
    by simp
  have "(mid, ?r) \<in> set (AList.update mid ?r (fb_committee_members fb))"
    by (rule map_of_SomeD) (simp add: update_conv')
  then have "?r \<in> set (member_rows m')"
    unfolding m' by (force simp: dict_values_def)
  then have "\<exists>r \<in> set (member_rows m'). m_committee_id r = cid \<and> m_user_id r = adm
            \<and> position r = 1"
    by (rule rev_bexI) simp
  with first show ?thesis by (rule conjI)
next
  case (Postgres db)
  let ?c = "\<lparr>c_id = cid, title = t, description = d, monthly_amount = a,
            total_members = tot, current_members = 1, duration = dur, committee_type = ct,
            category = cat, payment_frequency = fr, status = ''active'', admin_id = adm,
            created_date = now\<rparr>"
  let ?r = "\<lparr>m_id = mid, m_committee_id = cid, m_user_id = adm, position = 1, joined_date = now\<rparr>"
  from assms Postgres have fresh: "cid \<notin> set (map c_id (committees db))"
    by (auto split: if_splits)
  with assms Postgres have m': "m' = Postgres (db
        \<lparr>committees := committees db @ [?c],
         committee_members := committee_members db @ [?r]\<rparr>)"
    by (auto split: if_splits)
  have "lookup_committee m' cid = Some ?c"
    unfolding m' using find_append_fresh[OF fresh, of ?c] by simp
  then have first: "\<exists>c. lookup_committee m' cid = Some c \<and> c_id c = cid \<and> admin_id c = adm
            \<and> current_members c = 1 \<and> status c = ''active''"
    by simp
  have "?r \<in> set (member_rows m')"
    unfolding m' by simp
  then have "\<exists>r \<in> set (member_rows m'). m_committee_id r = cid \<and> m_user_id r = adm
            \<and> position r = 1"
    by (rule rev_bexI) simp
  with first show ?thesis by (rule conjI)
qed

lemma admin_membership_first:
  assumes "reachable m" and "c \<in> set (committee_rows m)"
  shows "is_member m (c_id c) (admin_id c)"
    and "r \<in> set (member_rows m) \<Longrightarrow> m_committee_id r = c_id c \<Longrightarrow>
         m_user_id r = admin_id c \<Longrightarrow> position r = 1"
proof -
  from assms(1) have inv: "admin_first (committee_rows m) (member_rows m)"
    using reachable_store_inv by (simp add: store_inv_def)
  from admin_firstD(4)[OF inv assms(2)] show "is_member m (c_id c) (admin_id c)"
    by (simp add: is_member_def)
  show "r \<in> set (member_rows m) \<Longrightarrow> m_committee_id r = c_id c \<Longrightarrow>
         m_user_id r = admin_id c \<Longrightarrow> position r = 1"
    by (rule admin_firstD(5)[OF inv assms(2)])
qed

text \<open>
  Claim C8. A \<^verbatim>\<open>create_committee\<close> that returns \<^verbatim>\<open>True\<close> leaves a committee under the
  new id with \<open>current_members = 1\<close>, status \<open>active\<close> and the creator as admin, and a
  membership of the creator in it at position 1. In every store reachable by calls of the
  manager, the admin of each committee is a member of it and every membership of the admin
  in the committee has position 1.
\<close>

theorem admin_is_first:
  "(create_committee m t d a tot dur ct cat fr adm cid mid now = (True, m') \<longrightarrow>
      (\<exists>c. lookup_committee m' cid = Some c \<and> c_id c = cid \<and> admin_id c = adm
            \<and> current_members c = 1 \<and> status c = ''active'')
      \<and> (\<exists>r \<in> set (member_rows m'). m_committee_id r = cid \<and> m_user_id r = adm
            \<and> position r = 1))
   \<and> (reachable m \<longrightarrow> c \<in> set (committee_rows m) \<longrightarrow>
        is_member m (c_id c) (admin_id c)
        \<and> (\<forall>r \<in> set (member_rows m).
              m_committee_id r = c_id c \<and> m_user_id r = admin_id c \<longrightarrow> position r = 1))"
proof (intro conjI impI ballI)
  assume "create_committee m t d a tot dur ct cat fr adm cid mid now = (True, m')"
  from create_committee_persists[OF this]
  show "\<exists>c. lookup_committee m' cid = Some c \<and> c_id c = cid \<and> admin_id c = adm
            \<and> current_members c = 1 \<and> status c = ''active''"
    and "\<exists>r \<in> set (member_rows m'). m_committee_id r = cid \<and> m_user_id r = adm
            \<and> position r = 1"
    by (rule conjunct1, rule conjunct2)
next
  assume "reachable m" "c \<in> set (committee_rows m)"
  then show "is_member m (c_id c) (admin_id c)" by (rule admin_membership_first(1))
next
  fix r
  assume "reachable m" "c \<in> set (committee_rows m)" "r \<in> set (member_rows m)"
    "m_committee_id r = c_id c \<and> m_user_id r = admin_id c"
  then show "position r = 1" using admin_membership_first(2)[of m c r] by simp
qed

theorem admin_is_first_witness:
  "fst (create_committee full_database ''Open circle'' None 3000 2 6 ''public'' ''General''
          ''monthly'' ''u-admin'' ''c-2'' ''m-4'' t0) = True
   \<and> (\<exists>r \<in> set (member_rows (snd (create_committee full_database ''Open circle'' None 3000 2 6
          ''public'' ''General'' ''monthly'' ''u-admin'' ''c-2'' ''m-4'' t0))).
         m_committee_id r = ''c-2'' \<and> m_user_id r = ''u-admin'' \<and> position r = 1)
   \<and> reachable browse_fallback
   \<and> full_circle \<in> set (committee_rows browse_fallback)
   \<and> full_circle_admin \<in> set (member_rows browse_fallback)
   \<and> m_committee_id full_circle_admin = c_id full_circle
   \<and> m_user_id full_circle_admin = admin_id full_circle
   \<and> is_member browse_fallback (c_id full_circle) (admin_id full_circle)
   \<and> position full_circle_admin = 1"
proof -
  let ?call = "create_committee full_database ''Open circle'' None 3000 2 6 ''public'' ''General''
          ''monthly'' ''u-admin'' ''c-2'' ''m-4'' t0"
  have ok: "fst ?call = True" by code_simp
  then have call: "?call = (True, snd ?call)" by (simp add: prod_eq_iff)
  have c: "full_circle \<in> set (committee_rows browse_fallback)" by code_simp
  have r: "full_circle_admin \<in> set (member_rows browse_fallback)" by code_simp
  have eq: "m_committee_id full_circle_admin = c_id full_circle
          \<and> m_user_id full_circle_admin = admin_id full_circle"
    by (simp add: full_circle_admin_def full_circle_def)
  note created = admin_is_first[where m = full_database and m' = "snd ?call" and cid = "''c-2''"
      and adm = "''u-admin''", THEN conjunct1, THEN mp, OF call, THEN conjunct2]
  note kept = admin_is_first[where m = browse_fallback and c = full_circle,
      THEN conjunct2, THEN mp, OF reachable_browse_fallback, THEN mp, OF c]
  from kept have adm: "is_member browse_fallback (c_id full_circle) (admin_id full_circle)"
    by (rule conjunct1)
  from kept[THEN conjunct2, THEN bspec, OF r, THEN mp, OF eq]
  have pos: "position full_circle_admin = 1" .
  show ?thesis
    using ok created reachable_browse_fallback c r eq adm pos by (intro conjI) simp_all
qed

section \<open>Position of a user who is not a member\<close>

lemma position_nonmember:
  "\<not> is_member m committee_id user_id \<Longrightarrow>
   get_member_position_in_committee m committee_id user_id = 0"
  by (cases m) (auto simp: is_member_def split: option.splits dest!: find_SomeD)

lemma position_member:
  assumes "reachable m" and "is_member m committee_id user_id"
  shows "1 \<le> get_member_position_in_committee m committee_id user_id"
proof -
  from assms(1) have inv: "admin_first (committee_rows m) (member_rows m)"
    using reachable_store_inv by (simp add: store_inv_def)
  let ?P = "\<lambda>r. m_committee_id r = committee_id \<and> m_user_id r = user_id"
  from assms(2) have "find ?P (member_rows m) \<noteq> None"
    by (auto simp: is_member_def find_None_iff)
  then obtain r where r: "find ?P (member_rows m) = Some r" by auto
  with find_SomeD[OF r] admin_firstD(2)[OF inv, of r]
  have "1 \<le> position r" by simp
  moreover have "get_member_position_in_committee m committee_id user_id = position r"
    using r by (cases m) simp_all
  ultimately show ?thesis by simp
qed

text \<open>
  Claim C10. \<^verbatim>\<open>get_member_position_in_committee\<close> returns 0 whenever the user has no
  membership in the committee, whether the committee exists or not. In every reachable
  store the positions of members are at least 1, so there the result is 0 exactly for the
  users who are not members.
\<close>

theorem position_zero_means_not_member:
  "(\<not> is_member m committee_id user_id \<longrightarrow>
      get_member_position_in_committee m committee_id user_id = 0)
   \<and> (reachable m \<longrightarrow> is_member m committee_id user_id \<longrightarrow>
        1 \<le> get_member_position_in_committee m committee_id user_id)"
proof (intro conjI impI)
  assume "\<not> is_member m committee_id user_id"
  then show "get_member_position_in_committee m committee_id user_id = 0"
    by (rule position_nonmember)
next
  assume "reachable m" "is_member m committee_id user_id"
  then show "1 \<le> get_member_position_in_committee m committee_id user_id"
    by (rule position_member)
qed

theorem position_zero_means_not_member_witness:
  "\<not> is_member browse_database ''c-2'' ''u-carol''
   \<and> get_member_position_in_committee browse_database ''c-2'' ''u-carol'' = 0
   \<and> ''c-7'' \<notin> set (committee_ids browse_database)
   \<and> \<not> is_member browse_database ''c-7'' ''u-admin''
   \<and> get_member_position_in_committee browse_database ''c-7'' ''u-admin'' = 0
   \<and> reachable browse_database
   \<and> is_member browse_database ''c-3'' ''u-member''
   \<and> 1 \<le> get_member_position_in_committee browse_database ''c-3'' ''u-member''"
proof -
  have n1: "\<not> is_member browse_database ''c-2'' ''u-carol''" by code_simp
  have n2: "\<not> is_member browse_database ''c-7'' ''u-admin''" by code_simp
  have n3: "''c-7'' \<notin> set (committee_ids browse_database)" by code_simp
  have y: "is_member browse_database ''c-3'' ''u-member''" by code_simp
  note z1 = position_zero_means_not_member[where m = browse_database and committee_id = "''c-2''"
      and user_id = "''u-carol''", THEN conjunct1, THEN mp, OF n1]
  note z2 = position_zero_means_not_member[where m = browse_database and committee_id = "''c-7''"
      and user_id = "''u-admin''", THEN conjunct1, THEN mp, OF n2]
  note p = position_zero_means_not_member[where m = browse_database and committee_id = "''c-3''"
      and user_id = "''u-member''", THEN conjunct2, THEN mp, OF reachable_browse_database,
      THEN mp, OF y]
  show ?thesis
    using n1 z1 n3 n2 z2 reachable_browse_database y p by (intro conjI)
qed

section \<open>The payment component of the trust score\<close>

lemma on_time_loop_count:
  "on_time_loop qs n = n + int (length (filter on_time qs))"
  by (induction qs arbitrary: n) (auto simp: on_time_def split: option.splits)

lemma fl_zero [simp]: "fl 0 = 0"
  by (simp add: fl_def)

lemma py_int_zero [simp]: "py_int 0 = 0"
  by (simp add: py_int_def)

lemma payment_score_counts:
  "calculate_payment_score ps =
     (if ps = [] then 0
      else py_int (fadd (fmul (fdiv (int (paid_count ps)) (int (length ps))) 25)
                     (if paid_count ps = 0 then 0
                      else fmul (fdiv (int (on_time_count ps)) (int (paid_count ps))) 15)))"
proof -
  have "length (filter on_time (filter (\<lambda>p. pl_status p = ''paid'') ps)) = on_time_count ps"
    by (simp add: on_time_count_def conj_commute)
  then show ?thesis
    by (simp add: calculate_payment_score_def Let_def on_time_loop_count paid_count_def fmul_def)
qed

lemma payment_score_unpaid: "paid_count ps = 0 \<Longrightarrow> calculate_payment_score ps = 0"
  by (simp add: payment_score_counts fdiv_def fmul_def fadd_def)

lemma on_time_payment_object: "on_time_count (map payment_object rows) = 0"
  by (simp add: on_time_count_def on_time_def payment_object_def)

text \<open>
  Claim C5 as stated, that the payment component equals
  \<open>25 * (paid_count / total_payment_count) + 15 * (on_time_count / paid_count)\<close>, fails:
  the function returns the \<^verbatim>\<open>int\<close> of the double precision value. One paid payment out
  of three gives 8, not 25/3; with 27 payments, 9 paid and 1 of them on time, the exact
  value is 10 and the function returns 9.
\<close>

theorem payment_score_counterexample:
  "calculate_payment_score one_of_three = 8
   \<and> payment_component_spec one_of_three = 25 / 3
   \<and> calculate_payment_score nine_of_27 = 9
   \<and> payment_component_spec nine_of_27 = 10"
  by code_simp

subsection \<open>Rounding error of the double precision evaluation\<close>

lemma pow2_power_int: "pow2 e = 2 powi e"
  by (simp add: pow2_def power_int_def inverse_eq_divide power_one_over)

lemma pow2_pos: "0 < pow2 e"
  by (simp add: pow2_power_int)

lemma pow2_add: "pow2 (i + j) = pow2 i * pow2 j"
  by (simp add: pow2_power_int power_int_add)

lemma pow2_nat: "0 \<le> e \<Longrightarrow> pow2 e = 2 ^ nat e"
  by (simp add: pow2_def)

lemma round_half_even_error: "\<bar>of_int (round_half_even y) - y\<bar> \<le> 1 / 2"
proof -
  have "of_int \<lfloor>y\<rfloor> \<le> y" "y < of_int \<lfloor>y\<rfloor> + 1" by linarith+
  then show ?thesis
    by (auto simp: round_half_even_def Let_def)
qed

lemma binade_le:
  assumes "0 < x"
  shows "pow2 (binade x) \<le> x"
proof -
  obtain a b where q: "quotient_of x = (a, b)" by (cases "quotient_of x")
  then have b: "0 < b" by (rule quotient_of_denom_pos)
  from q have x: "x = of_int a / of_int b" by (rule quotient_of_div)
  with assms b have a: "0 < a" by (simp add: zero_less_divide_iff)
  let ?k = "bitlen a - bitlen b"
  show ?thesis
  proof (cases "pow2 ?k \<le> x")
    case True
    then show ?thesis using q by (simp add: binade_def)
  next
    case False
    from bitlen_bounds[OF a] have la: "2 ^ nat (bitlen a - 1) \<le> a" by simp
    from bitlen_bounds[OF b] have ub: "b < 2 ^ nat (bitlen b)" by simp
    from a have ba: "1 \<le> bitlen a" by (simp add: bitlen_alt_def)
    have "pow2 (?k - 1) = pow2 (bitlen a - 1) * pow2 (- bitlen b)"
      using pow2_add[of "bitlen a - 1" "- bitlen b"] by (simp add: algebra_simps)
    also have "pow2 (bitlen a - 1) = 2 ^ nat (bitlen a - 1)"
      using ba by (simp add: pow2_nat)
    also have "pow2 (- bitlen b) = 1 / 2 ^ nat (bitlen b)"
      using bitlen_nonneg[of b] by (cases "bitlen b = 0") (simp_all add: pow2_def)
    finally have "pow2 (?k - 1) = 2 ^ nat (bitlen a - 1) / 2 ^ nat (bitlen b)" by simp
    also have "\<dots> \<le> rat_of_int a / rat_of_int b"
    proof (rule frac_le)
      from la have "rat_of_int (2 ^ nat (bitlen a - 1)) \<le> rat_of_int a"
        by (simp only: of_int_le_iff)
      then show "(2::rat) ^ nat (bitlen a - 1) \<le> rat_of_int a" by simp
      from ub have "b \<le> 2 ^ nat (bitlen b)" by simp
      then have "rat_of_int b \<le> rat_of_int (2 ^ nat (bitlen b))"
        by (simp only: of_int_le_iff)
      then show "rat_of_int b \<le> 2 ^ nat (bitlen b)" by simp
      show "0 < rat_of_int b" using b by simp
      show "0 \<le> rat_of_int a" using a by simp
    qed
    finally have "pow2 (?k - 1) \<le> x" using x by simp
    then show ?thesis using False q by (simp add: binade_def)
  qed
qed

lemma fl_error:
  assumes "0 \<le> x"
  shows "\<bar>fl x - x\<bar> \<le> x / 2 ^ 53"
proof (cases "x = 0")
  case True
  then show ?thesis by (simp add: fl_def)
next
  case False
  with assms have pos: "0 < x" by simp
  define e where "e = binade x - 52"
  define y where "y = x / pow2 e"
  have pe: "0 < pow2 e" by (rule pow2_pos)
  have flx: "fl x = of_int (round_half_even y) * pow2 e"
    using pos by (simp add: fl_def e_def y_def Let_def)
  have xy: "y * pow2 e = x" using pe by (simp add: y_def)
  have "fl x - x = (of_int (round_half_even y) - y) * pow2 e"
    unfolding flx by (simp add: left_diff_distrib xy)
  then have "\<bar>fl x - x\<bar> = \<bar>of_int (round_half_even y) - y\<bar> * pow2 e"
    using pe by (simp add: abs_mult)
  also have "\<dots> \<le> (1 / 2) * pow2 e"
    using round_half_even_error[of y] pe by (intro mult_right_mono) simp_all
  also have "pow2 e = pow2 (binade x) * pow2 (- 52)"
    unfolding e_def using pow2_add[of "binade x" "- 52"] by simp
  also have "pow2 (- 52) = 1 / 2 ^ 52" by (simp add: pow2_def)
  finally have "\<bar>fl x - x\<bar> \<le> pow2 (binade x) / 2 ^ 53" by simp
  also have "\<dots> \<le> x / 2 ^ 53"
    using binade_le[OF pos] by (simp add: divide_right_mono)
  finally show ?thesis .
qed

lemma fl_error_numeral:
  assumes "0 \<le> x"
  shows "\<bar>fl x - x\<bar> \<le> x / 9007199254740992"
  using fl_error[OF assms] by simp

lemma fl_nonneg:
  assumes "0 \<le> x"
  shows "0 \<le> fl x"
  using fl_error_numeral[OF assms] assms by linarith

lemma weighted_sum_error:
  assumes "0 \<le> x" "x \<le> 1" "0 \<le> y" "y \<le> 1"
  shows "\<bar>fl (fl (fl x * 25) + fl (fl y * 15)) - (25 * x + 15 * y)\<bar> \<le> 1 / 2 ^ 46"
    and "0 \<le> fl (fl (fl x * 25) + fl (fl y * 15))"
proof -
  define r1 where "r1 = fl x"
  define r2 where "r2 = fl y"
  define a where "a = fl (r1 * 25)"
  define b where "b = fl (r2 * 15)"
  define s where "s = fl (a + b)"
  have r1: "0 \<le> r1" "\<bar>r1 - x\<bar> \<le> x / 9007199254740992"
    unfolding r1_def using assms(1) by (rule fl_nonneg, rule fl_error_numeral)
  have r2: "0 \<le> r2" "\<bar>r2 - y\<bar> \<le> y / 9007199254740992"
    unfolding r2_def using assms(3) by (rule fl_nonneg, rule fl_error_numeral)
  from r1(1) have a0: "0 \<le> r1 * 25" by simp
  have a: "0 \<le> a" "\<bar>a - r1 * 25\<bar> \<le> r1 * 25 / 9007199254740992"
    unfolding a_def using a0 by (rule fl_nonneg, rule fl_error_numeral)
  from r2(1) have b0: "0 \<le> r2 * 15" by simp
  have b: "0 \<le> b" "\<bar>b - r2 * 15\<bar> \<le> r2 * 15 / 9007199254740992"
    unfolding b_def using b0 by (rule fl_nonneg, rule fl_error_numeral)
  from a(1) b(1) have s0: "0 \<le> a + b" by simp
  have s: "0 \<le> s" "\<bar>s - (a + b)\<bar> \<le> (a + b) / 9007199254740992"
    unfolding s_def using s0 by (rule fl_nonneg, rule fl_error_numeral)
  from r1(2) have r1': "r1 \<le> x + x / 9007199254740992" "x - x / 9007199254740992 \<le> r1"
    by linarith+
  from r2(2) have r2': "r2 \<le> y + y / 9007199254740992" "y - y / 9007199254740992 \<le> r2"
    by linarith+
  from a(2) have a': "a \<le> r1 * 25 + r1 * 25 / 9007199254740992"
    "r1 * 25 - r1 * 25 / 9007199254740992 \<le> a"
    by linarith+
  from b(2) have b': "b \<le> r2 * 15 + r2 * 15 / 9007199254740992"
    "r2 * 15 - r2 * 15 / 9007199254740992 \<le> b"
    by linarith+
  from s(2) have s': "s \<le> (a + b) + (a + b) / 9007199254740992"
    "(a + b) - (a + b) / 9007199254740992 \<le> s"
    by linarith+
  have r1u: "r1 \<le> 101 / 100" using r1'(1) assms(2) by linarith
  have r2u: "r2 \<le> 101 / 100" using r2'(1) assms(4) by linarith
  have au: "a \<le> 25 * x + 51 / 9007199254740992"
    using a'(1) r1'(1) r1u assms(2) by linarith
  have bu: "b \<le> 15 * y + 31 / 9007199254740992"
    using b'(1) r2'(1) r2u assms(4) by linarith
  have abu: "a + b \<le> 41" using au bu assms(2,4) by linarith
  have frac: "(a + b) / 9007199254740992 \<le> 41 / 9007199254740992"
    using abu by (simp add: divide_right_mono)
  have tiny: "(123::rat) / 9007199254740992 \<le> 1 / 70368744177664" by simp
  from s'(1) frac have "s \<le> a + b + 41 / 9007199254740992" by linarith
  with au bu have "s \<le> 25 * x + 15 * y + 123 / 9007199254740992" by linarith
  with tiny have up: "s - (25 * x + 15 * y) \<le> 1 / 70368744177664" by linarith
  have al: "25 * x - 51 / 9007199254740992 \<le> a"
    using a'(2) r1'(2) r1u assms(2) by linarith
  have bl: "15 * y - 31 / 9007199254740992 \<le> b"
    using b'(2) r2'(2) r2u assms(4) by linarith
  from s'(2) frac have "a + b - 41 / 9007199254740992 \<le> s" by linarith
  with al bl have "25 * x + 15 * y - 123 / 9007199254740992 \<le> s" by linarith
  with tiny have lo: "(25 * x + 15 * y) - s \<le> 1 / 70368744177664" by linarith
  from up lo have "\<bar>s - (25 * x + 15 * y)\<bar> \<le> 1 / 70368744177664"
    by linarith
  then show "\<bar>fl (fl (fl x * 25) + fl (fl y * 15)) - (25 * x + 15 * y)\<bar> \<le> 1 / 2 ^ 46"
    by (simp add: s_def a_def b_def r1_def r2_def)
  from s(1) show "0 \<le> fl (fl (fl x * 25) + fl (fl y * 15))"
    by (simp add: s_def a_def b_def r1_def r2_def)
qed

lemma on_time_le_paid: "on_time_count ps \<le> paid_count ps"
proof -
  have "filter (\<lambda>p. pl_status p = ''paid'' \<and> on_time p) ps
          = filter on_time (filter (\<lambda>p. pl_status p = ''paid'') ps)"
    by (simp add: conj_commute)
  then show ?thesis
    unfolding on_time_count_def paid_count_def by (metis length_filter_le)
qed

lemma paid_le_total: "paid_count ps \<le> length ps"
  unfolding paid_count_def by (rule length_filter_le)

lemma ratio_unit:
  assumes "n \<le> d" and "0 < d"
  shows "0 \<le> rat_of_int (int n) / rat_of_int (int d)"
    and "rat_of_int (int n) / rat_of_int (int d) \<le> 1"
  using assms by simp_all

lemma payment_score_near_spec:
  "payment_component_spec ps - 1 - 1 / 2 ^ 46 < rat_of_int (calculate_payment_score ps)
   \<and> rat_of_int (calculate_payment_score ps) \<le> payment_component_spec ps + 1 / 2 ^ 46"
proof (cases "ps = [] \<or> paid_count ps = 0")
  case True
  then have "calculate_payment_score ps = 0"
    using payment_score_unpaid[of ps] by (auto simp: payment_score_counts)
  moreover from True have "payment_component_spec ps = 0"
    by (auto simp: payment_component_spec_def)
  ultimately show ?thesis by simp
next
  case False
  then have t: "0 < length ps" and p: "0 < paid_count ps" by simp_all
  define x where "x = rat_of_int (int (paid_count ps)) / rat_of_int (int (length ps))"
  define y where "y = rat_of_int (int (on_time_count ps)) / rat_of_int (int (paid_count ps))"
  define s where "s = fl (fl (fl x * 25) + fl (fl y * 15))"
  have x: "0 \<le> x" "x \<le> 1"
    unfolding x_def using paid_le_total t by (rule ratio_unit)+
  have y: "0 \<le> y" "y \<le> 1"
    unfolding y_def using on_time_le_paid p by (rule ratio_unit)+
  have score: "calculate_payment_score ps = py_int s"
    using False
    by (simp add: payment_score_counts s_def x_def y_def fadd_def fmul_def fdiv_def)
  have spec: "payment_component_spec ps = 25 * x + 15 * y"
    using False by (simp add: payment_component_spec_def x_def y_def)
  have err: "\<bar>s - (25 * x + 15 * y)\<bar> \<le> 1 / 70368744177664" and s0: "0 \<le> s"
    unfolding s_def using weighted_sum_error[OF x y] by simp_all
  from s0 have fl: "py_int s = \<lfloor>s\<rfloor>" by (simp add: py_int_def)
  have "rat_of_int \<lfloor>s\<rfloor> \<le> s" "s < rat_of_int \<lfloor>s\<rfloor> + 1" by linarith+
  with err have "25 * x + 15 * y - 1 - 1 / 70368744177664 < rat_of_int \<lfloor>s\<rfloor>"
    "rat_of_int \<lfloor>s\<rfloor> \<le> 25 * x + 15 * y + 1 / 70368744177664"
    by linarith+
  then show ?thesis
    unfolding score fl spec by simp
qed

text \<open>
  Claim C5, amended. For every payment history the payment component is the double
  precision value of \<open>25 * (paid_count / total_payment_count) + 15 * (on_time_count /
  paid_count)\<close> truncated to an integer, where a paid payment counts as on time exactly
  when it has both a due date and a payment date and the payment date is not after the
  due date. It is therefore an integer that lies less than \<open>1 + 1 / 2 ^ 46\<close> below and at
  most \<open>1 / 2 ^ 46\<close> above the exact value of the formula. The component is 0 for the empty
  history and 0 when no payment is paid; the payment rows of the repository carry no due
  date, so none of them counts as on time.
\<close>

theorem payment_score_amended:
  "calculate_payment_score ps =
     (if ps = [] then 0
      else py_int (fadd (fmul (fdiv (int (paid_count ps)) (int (length ps))) 25)
                     (if paid_count ps = 0 then 0
                      else fmul (fdiv (int (on_time_count ps)) (int (paid_count ps))) 15)))
   \<and> payment_component_spec ps - 1 - 1 / 2 ^ 46 < rat_of_int (calculate_payment_score ps)
   \<and> rat_of_int (calculate_payment_score ps) \<le> payment_component_spec ps + 1 / 2 ^ 46
   \<and> (paid_count ps = 0 \<longrightarrow> calculate_payment_score ps = 0)
   \<and> on_time_count (map payment_object rows) = 0"
  using payment_score_counts[of ps] payment_score_near_spec[of ps]
    payment_score_unpaid[of ps] on_time_payment_object[of rows]
  by (intro conjI impI) simp_all

theorem payment_score_amended_witness:
  "calculate_payment_score (map payment_object [stored_payment, stored_payment]) = 25
   \<and> paid_count [still_pending] = 0 \<and> calculate_payment_score [still_pending] = 0
   \<and> on_time_count (map payment_object [stored_payment, stored_payment]) = 0
   \<and> calculate_payment_score [paid_in_time, paid_late] =
       py_int (fadd (fmul (fdiv 2 2) 25) (fmul (fdiv 1 2) 15))
   \<and> payment_component_spec nine_of_27 = 10
   \<and> 10 - 1 - 1 / 2 ^ 46 < rat_of_int (calculate_payment_score nine_of_27)
   \<and> rat_of_int (calculate_payment_score nine_of_27) \<le> 10 + 1 / 2 ^ 46"
proof -
  have a: "calculate_payment_score (map payment_object [stored_payment, stored_payment]) = 25"
    by code_simp
  have b: "paid_count [still_pending] = 0" by code_simp
  note T = payment_score_amended[where ps = "[still_pending]"
      and rows = "[stored_payment, stored_payment]"]
  from T[THEN conjunct2, THEN conjunct2, THEN conjunct2, THEN conjunct1, THEN mp, OF b]
  have c: "calculate_payment_score [still_pending] = 0" .
  from T[THEN conjunct2, THEN conjunct2, THEN conjunct2, THEN conjunct2]
  have d: "on_time_count (map payment_object [stored_payment, stored_payment]) = 0" .
  have cnt: "paid_count [paid_in_time, paid_late] = 2" "on_time_count [paid_in_time, paid_late] = 1"
    by code_simp+
  from payment_score_amended[where ps = "[paid_in_time, paid_late]" and rows = "[]", THEN conjunct1]
  have e: "calculate_payment_score [paid_in_time, paid_late] =
       py_int (fadd (fmul (fdiv 2 2) 25) (fmul (fdiv 1 2) 15))"
    by (simp add: cnt)
  have f: "payment_component_spec nine_of_27 = 10" by code_simp
  note N = payment_score_amended[where ps = nine_of_27 and rows = "[]"]
  from N[THEN conjunct2, THEN conjunct1] f
  have g: "10 - 1 - 1 / 2 ^ 46 < rat_of_int (calculate_payment_score nine_of_27)" by simp
  from N[THEN conjunct2, THEN conjunct2, THEN conjunct1] f
  have h: "rat_of_int (calculate_payment_score nine_of_27) \<le> 10 + 1 / 2 ^ 46" by simp
  from a b c d e f g h show ?thesis by (intro conjI)
qed

end
